theory Spec2Isabelle
  imports Complex_Main "HOL-Library.Sublist" "HOL-Library.Multiset" "HOL-Library.Log_Nat"
begin

section \<open>JavaScript values shared by the helpers\<close>

text \<open>
  \<^verbatim>\<open>process.env\<close> maps a variable name to its string value; a variable that is not
  set reads as \<^verbatim>\<open>undefined\<close>, here \<open>None\<close>. In a condition and under \<^verbatim>\<open>||\<close> a
  string is truthy when it is not empty, and \<^verbatim>\<open>undefined\<close> is falsy.
\<close>

type_synonym process_env = "string \<rightharpoonup> string"

fun truthy :: "string option \<Rightarrow> bool" where
  "truthy None = False"
| "truthy (Some s) = (s \<noteq> [])"

definition or_else :: "string option \<Rightarrow> string option \<Rightarrow> string option" where
  "or_else a b = (if truthy a then a else b)"

text \<open>
  A JavaScript number as the worker-count functions meet it: \<^verbatim>\<open>NaN\<close> or an integer.
  \<^verbatim>\<open>parseInt(s, 10)\<close> skips leading white space, reads an optional sign and the longest
  run of decimal digits, and yields \<^verbatim>\<open>NaN\<close> when there is no digit. (Integers are
  unbounded here; the source's doubles agree with them below \<open>2 ^ 53\<close>.)
\<close>

datatype number = NaN | Num int

definition isWhiteSpace :: "char \<Rightarrow> bool" where
  "isWhiteSpace c = (c \<in> set [CHR '' '', CHR 0x09, CHR 0x0A, CHR 0x0B, CHR 0x0C, CHR 0x0D])"

definition isDigit :: "char \<Rightarrow> bool" where
  "isDigit c = (c \<in> set ''0123456789'')"

definition digitValue :: "char \<Rightarrow> int" where
  "digitValue c = int (of_char c) - 48"

definition parseInt :: "string \<Rightarrow> number" where
  "parseInt s =
     (let S = dropWhile isWhiteSpace s;
          sign = (case S of c # _ \<Rightarrow> if c = CHR ''-'' then - 1 else 1 | [] \<Rightarrow> (1::int));
          S' = (case S of c # r \<Rightarrow> if c = CHR ''-'' \<or> c = CHR ''+'' then r else S | [] \<Rightarrow> S);
          Z = takeWhile isDigit S'
      in if Z = [] then NaN
         else Num (sign * foldl (\<lambda>acc c. 10 * acc + digitValue c) 0 Z))"

fun Math_max1 :: "number \<Rightarrow> number" where
  "Math_max1 NaN = NaN"
| "Math_max1 (Num n) = Num (max 1 n)"

section \<open>ParallelHelpers\<close>

text \<open>
  \<^verbatim>\<open>getOptimalWorkerCount\<close>. \<open>cpuCount\<close> is \<^verbatim>\<open>os.cpus().length\<close> and \<open>totalmem\<close> is
  \<^verbatim>\<open>os.totalmem()\<close>, a number of bytes. \<^verbatim>\<open>Math.floor(cpuCount * 0.5)\<close> is
  \<open>cpuCount div 2\<close>, and \<^verbatim>\<open>Math.floor(totalmem / (1024 * 1024 * 1024) / 0.5)\<close> is
  \<open>totalmem div 2 ^ 29\<close>: both divisors are powers of two, so the source's doubles
  carry no rounding error.
\<close>

definition getOptimalWorkerCount :: "nat \<Rightarrow> nat \<Rightarrow> int" where
  "getOptimalWorkerCount cpuCount totalmem =
     (let workers = max 1 (int (cpuCount div 2));
          maxWorkersByMemory = int (totalmem div 2 ^ 29);
          workers = min workers maxWorkersByMemory
      in min workers 8)"

definition getWorkerCount :: "process_env \<Rightarrow> nat \<Rightarrow> nat \<Rightarrow> number" where
  "getWorkerCount env cpuCount totalmem =
     (let envWorkers = or_else (env ''CUCUMBER_WORKERS'') (env ''PLAYWRIGHT_WORKERS'')
      in if truthy envWorkers
         then (case parseInt (the envWorkers) of
                 NaN \<Rightarrow> Num (getOptimalWorkerCount cpuCount totalmem)
               | Num cnt \<Rightarrow> Math_max1 (Num cnt))
         else Num (getOptimalWorkerCount cpuCount totalmem))"

definition isCI :: "process_env \<Rightarrow> bool" where
  "isCI env = (truthy (env ''CI'') \<or> truthy (env ''GITHUB_ACTIONS'') \<or> truthy (env ''JENKINS_URL'')
                \<or> truthy (env ''BUILDKITE'') \<or> truthy (env ''CIRCLECI''))"

definition getCIWorkerCount :: "process_env \<Rightarrow> number" where
  "getCIWorkerCount env =
     (let ciWorkers = env ''CI_WORKERS''
      in if truthy ciWorkers then Math_max1 (parseInt (the ciWorkers)) else Num 2)"

definition getRecommendedWorkerCount :: "process_env \<Rightarrow> nat \<Rightarrow> nat \<Rightarrow> number" where
  "getRecommendedWorkerCount env cpuCount totalmem =
     (if isCI env then getCIWorkerCount env else getWorkerCount env cpuCount totalmem)"

text \<open>
  \<^verbatim>\<open>splitScenariosAcrossWorkers\<close>. \<open>forEach_push\<close> is the \<^verbatim>\<open>forEach\<close> loop, started at
  index 0 on \<open>workerCount\<close> empty chunks. With \<open>workerCount = 0\<close> the index
  \<^verbatim>\<open>index % 0\<close> is \<^verbatim>\<open>NaN\<close>, \<^verbatim>\<open>chunks[NaN]\<close> is \<^verbatim>\<open>undefined\<close> and the scenario is
  dropped; the guard \<^verbatim>\<open>if (chunk)\<close> is the test \<open>workerIndex < length chunks\<close>.
\<close>

fun forEach_push :: "'a list \<Rightarrow> nat \<Rightarrow> nat \<Rightarrow> 'a list list \<Rightarrow> 'a list list" where
  "forEach_push [] index workerCount chunks = chunks"
| "forEach_push (scenario # rest) index workerCount chunks =
     (if workerCount = 0 then forEach_push rest (Suc index) workerCount chunks
      else let workerIndex = index mod workerCount in
        if workerIndex < length chunks
        then forEach_push rest (Suc index) workerCount
               (chunks[workerIndex := chunks ! workerIndex @ [scenario]])
        else forEach_push rest (Suc index) workerCount chunks)"

definition splitScenariosAcrossWorkers :: "'a list \<Rightarrow> nat \<Rightarrow> 'a list list" where
  "splitScenariosAcrossWorkers scenarios workerCount =
     filter (\<lambda>chunk. length chunk > 0)
       (forEach_push scenarios 0 workerCount (replicate workerCount []))"

section \<open>The structured report and the files of the retry subsystem\<close>

text \<open>
  The report the test runner writes is an array of features; a feature has \<^verbatim>\<open>uri\<close>,
  \<^verbatim>\<open>name\<close> and \<^verbatim>\<open>elements\<close> (its scenarios), a scenario has \<^verbatim>\<open>name\<close>, \<^verbatim>\<open>line\<close> and
  \<^verbatim>\<open>steps\<close>, and a step has a \<^verbatim>\<open>result\<close> with \<^verbatim>\<open>status\<close> and \<^verbatim>\<open>error_message\<close>.
  A field the code reads through \<^verbatim>\<open>?.\<close> or \<^verbatim>\<open>||\<close> may be missing and is an option.
\<close>

record step_result =
  status :: string
  error_message :: "string option"

record step =
  result :: "step_result option"

record scenario =
  scenario_name :: string
  scenario_line :: "nat option"
  steps :: "step list option"

record feature =
  feature_uri :: "string option"
  feature_name :: string
  elements :: "scenario list option"

record FailedTest =
  scenarioName :: string
  featureFile :: string
  line :: nat
  error :: string
  timestamp :: string
  attempt :: nat

record retry_details =
  details_originalFailed :: "FailedTest list"
  details_retryResults :: "FailedTest list"
  details_recovered :: "FailedTest list"

record retry_report =
  report_timestamp :: string
  originalFailures :: int
  retriedTests :: int
  stillFailing :: int
  recovered :: int
  successRate :: string
  details :: retry_details

text \<open>
  A file holds text; what the code sees of it is whether \<^verbatim>\<open>JSON.parse\<close> throws
  (\<open>Malformed\<close>) or returns a value (\<open>Json\<close>). Each file of the subsystem, when it
  parses, has the shape its writer gives it: the registry \<^verbatim>\<open>test-results/failed-tests.json\<close>
  an array of \<open>FailedTest\<close>, the summary \<^verbatim>\<open>reports/retry-report.json\<close> a retry report,
  a report path an array of features. \<open>None\<close> is a path that does not exist.
  Directories are not tracked: \<^verbatim>\<open>mkdirSync\<close> has nothing to change, and a write to a
  path always succeeds.
\<close>

datatype 'a json_file = Malformed | Json 'a

record fs =
  reports :: "string \<rightharpoonup> feature list json_file"
  failed_tests_file :: "FailedTest list json_file option"
  retry_report_file :: "retry_report json_file option"

datatype error = SyntaxError | ENOENT | ReferenceError

definition existsSync :: "'a option \<Rightarrow> bool" where
  "existsSync file = (file \<noteq> None)"

text \<open>\<^verbatim>\<open>JSON.parse(fs.readFileSync(path, 'utf8'))\<close>.\<close>

fun read_json :: "'a json_file option \<Rightarrow> error + 'a" where
  "read_json None = Inl ENOENT"
| "read_json (Some Malformed) = Inl SyntaxError"
| "read_json (Some (Json v)) = Inr v"

section \<open>RetryHelpers\<close>

text \<open>
  \<^verbatim>\<open>getFailedTests\<close>: the parsed registry when the file exists and parses; the
  \<^verbatim>\<open>catch\<close> and the missing file both give the empty list.
\<close>

definition getFailedTests :: "fs \<Rightarrow> FailedTest list" where
  "getFailedTests files =
     (if existsSync (failed_tests_file files)
      then (case read_json (failed_tests_file files) of
              Inr content \<Rightarrow> content
            | Inl _ \<Rightarrow> [])
      else [])"

text \<open>
  \<^verbatim>\<open>saveFailedTest\<close>: load, \<^verbatim>\<open>push\<close>, write the whole list back.
\<close>

definition saveFailedTest :: "fs \<Rightarrow> FailedTest \<Rightarrow> fs" where
  "saveFailedTest files failedTest =
     (let existingFailed = getFailedTests files @ [failedTest]
      in files\<lparr>failed_tests_file := Some (Json existingFailed)\<rparr>)"

text \<open>
  \<^verbatim>\<open>clearFailedTests\<close>: unlink the registry when it exists. \<^verbatim>\<open>unlinkSync\<close> on a missing
  path throws \<open>ENOENT\<close>; the \<^verbatim>\<open>catch\<close> logs it and returns.
\<close>

definition unlinkSync_registry :: "fs \<Rightarrow> error + fs" where
  "unlinkSync_registry files =
     (if failed_tests_file files = None then Inl ENOENT
      else Inr (files\<lparr>failed_tests_file := None\<rparr>))"

definition clearFailedTests :: "fs \<Rightarrow> fs" where
  "clearFailedTests files =
     (if existsSync (failed_tests_file files)
      then (case unlinkSync_registry files of Inr files' \<Rightarrow> files' | Inl _ \<Rightarrow> files)
      else files)"

text \<open>
  \<^verbatim>\<open>parseFailedTestsFromReport\<close>. The two nested \<^verbatim>\<open>forEach\<close> loops push onto
  \<open>failedTests\<close>; \<open>now k\<close> is what \<^verbatim>\<open>new Date().toISOString()\<close> returns at the push
  that follows \<open>k\<close> earlier ones.
\<close>

definition step_failed :: "step \<Rightarrow> bool" where
  "step_failed st = (case result st of None \<Rightarrow> False | Some r \<Rightarrow> status r = ''failed'')"

definition hasFailedSteps :: "scenario \<Rightarrow> bool" where
  "hasFailedSteps sc = (case steps sc of None \<Rightarrow> False | Some sts \<Rightarrow> list_ex step_failed sts)"

definition failedStep :: "scenario \<Rightarrow> step option" where
  "failedStep sc = (case steps sc of None \<Rightarrow> None | Some sts \<Rightarrow> find step_failed sts)"

definition failed_error :: "step option \<Rightarrow> string" where
  "failed_error fstep =
     (let error_message = Option.bind (Option.bind fstep result) error_message
      in if truthy error_message then the error_message else ''Unknown error'')"

definition failed_test_of :: "(nat \<Rightarrow> string) \<Rightarrow> feature \<Rightarrow> scenario \<Rightarrow> nat \<Rightarrow> FailedTest" where
  "failed_test_of now ft sc k =
     \<lparr> scenarioName = scenario_name sc,
       featureFile = (if truthy (feature_uri ft) then the (feature_uri ft) else feature_name ft),
       line = (case scenario_line sc of None \<Rightarrow> 0 | Some l \<Rightarrow> l),
       error = failed_error (failedStep sc),
       timestamp = now k,
       attempt = 1 \<rparr>"

fun forEach_scenario ::
  "(nat \<Rightarrow> string) \<Rightarrow> feature \<Rightarrow> scenario list \<Rightarrow> FailedTest list \<Rightarrow> FailedTest list" where
  "forEach_scenario now ft [] failedTests = failedTests"
| "forEach_scenario now ft (sc # rest) failedTests =
     forEach_scenario now ft rest
       (if hasFailedSteps sc
        then failedTests @ [failed_test_of now ft sc (length failedTests)]
        else failedTests)"

fun forEach_feature ::
  "(nat \<Rightarrow> string) \<Rightarrow> feature list \<Rightarrow> FailedTest list \<Rightarrow> FailedTest list" where
  "forEach_feature now [] failedTests = failedTests"
| "forEach_feature now (ft # rest) failedTests =
     forEach_feature now rest
       (case elements ft of
          None \<Rightarrow> failedTests
        | Some scs \<Rightarrow> forEach_scenario now ft scs failedTests)"

text \<open>
  The body of the \<^verbatim>\<open>try\<close> block, with what it throws, and the function with its
  \<^verbatim>\<open>catch\<close>, which logs the error and returns the empty list.
\<close>

definition parse_report_try :: "fs \<Rightarrow> (nat \<Rightarrow> string) \<Rightarrow> string \<Rightarrow> error + FailedTest list" where
  "parse_report_try files now reportPath =
     (if \<not> existsSync (reports files reportPath) then Inr []
      else (case read_json (reports files reportPath) of
              Inl e \<Rightarrow> Inl e
            | Inr reportData \<Rightarrow> Inr (forEach_feature now reportData [])))"

definition parseFailedTestsFromReport ::
  "fs \<Rightarrow> (nat \<Rightarrow> string) \<Rightarrow> string \<Rightarrow> error + FailedTest list" where
  "parseFailedTestsFromReport files now reportPath =
     (case parse_report_try files now reportPath of
        Inl e \<Rightarrow> Inr []
      | Inr failedTests \<Rightarrow> Inr failedTests)"

text \<open>
  For the statements about a report: its scenarios in document order, each with the
  feature it belongs to, and those of them that have a failed step.
\<close>

definition report_scenarios :: "feature list \<Rightarrow> (feature \<times> scenario) list" where
  "report_scenarios reportData =
     concat (map (\<lambda>ft. case elements ft of None \<Rightarrow> [] | Some scs \<Rightarrow> map (Pair ft) scs) reportData)"

definition failing_scenarios :: "feature list \<Rightarrow> (feature \<times> scenario) list" where
  "failing_scenarios reportData = filter (\<lambda>(ft, sc). hasFailedSteps sc) (report_scenarios reportData)"

section \<open>Strings\<close>

text \<open>
  \<^verbatim>\<open>Array.prototype.join\<close>, and the decimal numeral of a number as string
  interpolation writes it.
\<close>

fun join :: "string \<Rightarrow> string list \<Rightarrow> string" where
  "join sep [] = []"
| "join sep [x] = x"
| "join sep (x # y # ys) = x @ sep @ join sep (y # ys)"

definition digit_char :: "nat \<Rightarrow> char" where
  "digit_char d = ''0123456789'' ! d"

fun digits_of :: "nat \<Rightarrow> nat \<Rightarrow> string" where
  "digits_of 0 n = []"
| "digits_of (Suc fuel) n =
     (if n < 10 then [digit_char n] else digits_of fuel (n div 10) @ [digit_char (n mod 10)])"

definition show_nat :: "nat \<Rightarrow> string" where
  "show_nat n = digits_of (Suc n) n"

section \<open>The retry script\<close>

text \<open>
  \<^verbatim>\<open>scripts/retry-failed-tests.sh\<close> runs under \<^verbatim>\<open>set -e\<close>. A function of the script is
  modelled with the result \<open>Inl code\<close> when the shell exits inside it with status
  \<open>code\<close>, and \<open>Inr\<close> when it returns to its caller. The programs the script starts
  and whose code is outside the repository's retry logic are inputs:
  \<^item> \<open>loader_status\<close>, the exit status of \<^verbatim>\<open>node src/config/environment-loader.js\<close>;
  \<^item> \<open>runner k\<close>, what the test runner does at attempt \<open>k\<close>: whether its exit
    status is zero, and what \<^verbatim>\<open>reports/retry-k.json\<close> holds afterwards.
\<close>

record cli =
  ENVIRONMENT :: string
  MAX_RETRIES :: nat
  REPORT_PATH :: string
  CLEAR_FAILED :: bool
  SHOW_STATS :: bool

type_synonym runner = "nat \<Rightarrow> bool \<times> feature list json_file option"

text \<open>\<^verbatim>\<open>show_retry_stats\<close>: \<^verbatim>\<open>node\<close> dies on a summary that does not parse.\<close>

definition show_retry_stats :: "fs \<Rightarrow> nat + unit" where
  "show_retry_stats files =
     (if existsSync (retry_report_file files)
      then (case read_json (retry_report_file files) of Inl _ \<Rightarrow> Inl 1 | Inr _ \<Rightarrow> Inr ())
      else Inr ())"

text \<open>\<^verbatim>\<open>clear_failed_tests\<close>: \<^verbatim>\<open>rm\<close> each of the two files that exists.\<close>

definition clear_failed_tests :: "fs \<Rightarrow> fs" where
  "clear_failed_tests files =
     (let files1 = (if existsSync (failed_tests_file files)
                    then files\<lparr>failed_tests_file := None\<rparr> else files)
      in if existsSync (retry_report_file files1)
         then files1\<lparr>retry_report_file := None\<rparr> else files1)"

text \<open>
  \<^verbatim>\<open>extract_failed_tests\<close>. A missing report makes the script exit with status 1.
  Otherwise the function returns the exit status of \<^verbatim>\<open>node\<close>: 1 when the report does
  not parse or lists a failed scenario (the registry is then overwritten with the failed
  tests found), 0 when it lists none.
\<close>

definition extract_failed_tests :: "cli \<Rightarrow> (nat \<Rightarrow> string) \<Rightarrow> fs \<Rightarrow> nat + (nat \<times> fs)" where
  "extract_failed_tests args now files =
     (if \<not> existsSync (reports files (REPORT_PATH args)) then Inl 1
      else (case read_json (reports files (REPORT_PATH args)) of
              Inl _ \<Rightarrow> Inr (1, files)
            | Inr reportData \<Rightarrow>
                (let failedTests = forEach_feature now reportData []
                 in if length failedTests > 0
                    then Inr (1, files\<lparr>failed_tests_file := Some (Json failedTests)\<rparr>)
                    else Inr (0, files))))"

text \<open>
  The retry command of one attempt is the text \<^verbatim>\<open>node\<close> prints. \<open>retry_scenarios\<close> is
  the snippet's \<^verbatim>\<open>scenarios\<close>, the names joined by \<^verbatim>\<open>|\<close> for \<^verbatim>\<open>--name\<close>. The
  template string that holds the command names \<^verbatim>\<open>${attempt}\<close> with its dollar sign
  escaped for the shell, so the shell hands the placeholder to \<^verbatim>\<open>node\<close>, where
  \<^verbatim>\<open>attempt\<close> is not a variable. Evaluating the template throws a
  \<^verbatim>\<open>ReferenceError\<close> before anything is printed. \<open>retry_command_node\<close> is the snippet:
  what it prints, or what it throws. \<^verbatim>\<open>local\<close> hides the exit status of \<^verbatim>\<open>node\<close>, so
  \<open>retry_command\<close> is the printed text, empty when the snippet throws.
\<close>

definition retry_scenarios :: "FailedTest list \<Rightarrow> string" where
  "retry_scenarios failedTests = join ''|'' (map scenarioName failedTests)"

definition retry_command_node :: "fs \<Rightarrow> error + string" where
  "retry_command_node files =
     (if existsSync (failed_tests_file files)
      then (case read_json (failed_tests_file files) of
              Inl e \<Rightarrow> Inl e
            | Inr failedTests \<Rightarrow>
                if length failedTests > 0
                then (let scenarios = retry_scenarios failedTests in Inl ReferenceError)
                else Inr [])
      else Inr [])"

definition retry_command :: "fs \<Rightarrow> string" where
  "retry_command files =
     (case retry_command_node files of Inl _ \<Rightarrow> [] | Inr printed \<Rightarrow> printed)"

text \<open>
  \<^verbatim>\<open>extract_failed_tests_from_retry\<close>: status 1 when the attempt's report is missing,
  does not parse (\<^verbatim>\<open>node\<close> dies) or lists a failed scenario, else 0.
\<close>

definition extract_failed_tests_from_retry :: "feature list json_file option \<Rightarrow> nat" where
  "extract_failed_tests_from_retry retry_report =
     (if \<not> existsSync retry_report then 1
      else (case read_json retry_report of
              Inl _ \<Rightarrow> 1
            | Inr reportData \<Rightarrow>
                (let stillFailing = map scenario_name
                       (filter hasFailedSteps
                          (concat (map (\<lambda>ft. case elements ft of None \<Rightarrow> [] | Some scs \<Rightarrow> scs)
                             reportData)))
                 in if length stillFailing > 0 then 1 else 0)))"

text \<open>
  The \<^verbatim>\<open>for\<close> loop of \<^verbatim>\<open>retry_failed_tests\<close>, at attempt \<open>attempt_no\<close> with
  \<open>remaining\<close> attempts left to start. An empty retry command ends the loop
  (\<^verbatim>\<open>No tests to retry\<close>). Under \<^verbatim>\<open>set -e\<close> a failing loader ends the
  script, and so does a non-zero status of \<^verbatim>\<open>extract_failed_tests_from_retry\<close>, which
  is called as a plain command. A failing test run is the condition of an \<^verbatim>\<open>if\<close>: the
  loop goes on, and after the last attempt it ends with status 0.
\<close>

fun retry_attempts :: "nat \<Rightarrow> runner \<Rightarrow> fs \<Rightarrow> nat \<Rightarrow> nat \<Rightarrow> nat + nat" where
  "retry_attempts loader_status run files attempt_no 0 = Inr 0"
| "retry_attempts loader_status run files attempt_no (Suc remaining) =
     (if loader_status \<noteq> 0 then Inl loader_status
      else if retry_command files \<noteq> []
      then (case run attempt_no of
              (True, retry_report) \<Rightarrow>
                (let still_failing = extract_failed_tests_from_retry retry_report
                 in if still_failing \<noteq> 0 then Inl still_failing else Inr 0)
            | (False, _) \<Rightarrow>
                retry_attempts loader_status run files (Suc attempt_no) remaining)
      else Inr 0)"

definition retry_failed_tests :: "cli \<Rightarrow> nat \<Rightarrow> runner \<Rightarrow> fs \<Rightarrow> nat + nat" where
  "retry_failed_tests args loader_status run files =
     (if \<not> existsSync (failed_tests_file files) then Inr 0
      else retry_attempts loader_status run files 1 (MAX_RETRIES args))"

text \<open>\<^verbatim>\<open>main\<close>, and the exit status of the script.\<close>

definition main :: "cli \<Rightarrow> (nat \<Rightarrow> string) \<Rightarrow> nat \<Rightarrow> runner \<Rightarrow> fs \<Rightarrow> nat" where
  "main args now loader_status run files =
     (if SHOW_STATS args
      then (case show_retry_stats files of Inl code \<Rightarrow> code | Inr _ \<Rightarrow> 0)
      else
        (let files1 = (if CLEAR_FAILED args then clear_failed_tests files else files)
         in case extract_failed_tests args now files1 of
              Inl code \<Rightarrow> code
            | Inr (0, _) \<Rightarrow> 0
            | Inr (_, files2) \<Rightarrow>
                (case retry_failed_tests args loader_status run files2 of
                   Inl code \<Rightarrow> code
                 | Inr _ \<Rightarrow> 0)))"

section \<open>Retry commands and the runner's name filter\<close>

text \<open>
  \<^verbatim>\<open>RetryHelpers.generateRetryCommand\<close>. \<open>unique\<close> is \<^verbatim>\<open>[...new Set(xs)]\<close>: the first
  occurrence of each element, in order. The names are quoted, joined by a space, and
  every double quote is then removed again.
\<close>

definition unique :: "'a list \<Rightarrow> 'a list" where
  "unique xs = rev (remdups (rev xs))"

definition generateRetryCommand :: "fs \<Rightarrow> string option" where
  "generateRetryCommand files =
     (let failedTests = getFailedTests files
      in if length failedTests = 0 then None
         else
           (let featureFiles = unique (map featureFile failedTests);
                scenarios = join '' '' (map (\<lambda>test. ''\"'' @ scenarioName test @ ''\"'') failedTests);
                features = join '' '' featureFiles
            in Some (''cucumber-js '' @ features @ '' --name \"''
                       @ filter (\<lambda>c. c \<noteq> CHR 0x22) scenarios @ ''\"'')))"

text \<open>
  The test runner is a program outside the repository. Its option \<^verbatim>\<open>--name\<close> takes a
  regular expression and runs the scenarios in whose name the expression finds a match.
  \<open>name_filter_selects\<close> is that search for an expression whose only operator is
  \<^verbatim>\<open>|\<close>: one of the alternatives occurs in the name.
\<close>

fun split_bar :: "string \<Rightarrow> string list" where
  "split_bar [] = [[]]"
| "split_bar (c # cs) =
     (if c = CHR ''|'' then [] # split_bar cs
      else (case split_bar cs of alt # alts \<Rightarrow> (c # alt) # alts | [] \<Rightarrow> [[c]]))"

definition name_filter_selects :: "string \<Rightarrow> string \<Rightarrow> bool" where
  "name_filter_selects pattern name = list_ex (\<lambda>alt. sublist alt name) (split_bar pattern)"

section \<open>EnvironmentManager\<close>

text \<open>
  A configuration file holds any JSON value, and \<open>mergeConfigs\<close> takes \<^verbatim>\<open>any\<close>.
  An object is the list of its properties. \<open>spread\<close> gives the own enumerable
  properties of a value, as \<^verbatim>\<open>{...v}\<close> and \<^verbatim>\<open>for (key in v)\<close> see them: those of an
  object, the indices of an array or of a string, none for the rest and for
  \<^verbatim>\<open>undefined\<close>.
\<close>

datatype json = JNull | JBool bool | JNum int | JStr string | JArr "json list"
  | JObj "(string \<times> json) list"

fun spread :: "json option \<Rightarrow> (string \<times> json) list" where
  "spread (Some (JObj props)) = props"
| "spread (Some (JArr xs)) = zip (map show_nat [0..<length xs]) xs"
| "spread (Some (JStr s)) = zip (map show_nat [0..<length s]) (map (\<lambda>c. JStr [c]) s)"
| "spread _ = []"

definition get_prop :: "(string \<times> json) list \<Rightarrow> string \<Rightarrow> json option" where
  "get_prop props key = map_of props key"

fun set_prop :: "(string \<times> json) list \<Rightarrow> string \<Rightarrow> json \<Rightarrow> (string \<times> json) list" where
  "set_prop [] key v = [(key, v)]"
| "set_prop ((k, w) # props) key v =
     (if k = key then (k, v) # props else (k, w) # set_prop props key v)"

definition spread_both :: "json option \<Rightarrow> json option \<Rightarrow> (string \<times> json) list" where
  "spread_both a b = foldl (\<lambda>props (k, v). set_prop props k v) (spread a) (spread b)"

text \<open>\<^verbatim>\<open>typeof v === 'object' && !Array.isArray(v)\<close>: an object, or \<^verbatim>\<open>null\<close>.\<close>

fun is_object_not_array :: "json \<Rightarrow> bool" where
  "is_object_not_array (JObj _) = True"
| "is_object_not_array JNull = True"
| "is_object_not_array _ = False"

definition mergeConfigs :: "json \<Rightarrow> json \<Rightarrow> (string \<times> json) list" where
  "mergeConfigs base override =
     foldl (\<lambda>merged (key, v).
              if is_object_not_array v
              then set_prop merged key (JObj (spread_both (get_prop merged key) (Some v)))
              else set_prop merged key v)
       (spread (Some base)) (spread (Some override))"

text \<open>
  The files of the configuration directory by path, and the singleton's two fields.
  \<^verbatim>\<open>path.join(__dirname, 'environments', name + '.json')\<close> is written from the
  directory of the module, without the normalisation \<^verbatim>\<open>path.join\<close> applies to a name
  with dots or slashes in it.
\<close>

type_synonym config_files = "string \<rightharpoonup> json json_file"

record manager =
  config :: "(string \<times> json) list option"
  currentEnvironment :: string

datatype thrown = Error string

definition config_path :: "string \<Rightarrow> string" where
  "config_path name = ''environments/'' @ name @ ''.json''"

definition loadConfigFile :: "config_files \<Rightarrow> string \<Rightarrow> thrown + json" where
  "loadConfigFile cfiles filePath =
     (if \<not> existsSync (cfiles filePath)
      then Inl (Error (''Configuration file not found: '' @ filePath))
      else (case read_json (cfiles filePath) of
              Inl _ \<Rightarrow> Inl (Error ''SyntaxError'')
            | Inr v \<Rightarrow> Inr v))"

text \<open>
  \<^verbatim>\<open>environment || process.env.TEST_ENV || process.env.NODE_ENV || 'dev'\<close>.
\<close>

definition resolve_env :: "process_env \<Rightarrow> string option \<Rightarrow> string" where
  "resolve_env penv environment =
     (let chosen = or_else (or_else environment (penv ''TEST_ENV'')) (penv ''NODE_ENV'')
      in if truthy chosen then the chosen else ''dev'')"

text \<open>
  \<open>loadEnvironment\<close> assigns \<open>currentEnvironment\<close> before the \<^verbatim>\<open>try\<close> block. Inside
  it, either file may fail to load; the merged configuration is assigned to \<open>config\<close>,
  and the log line then reads \<^verbatim>\<open>this.config.environment.name\<close>, a \<^verbatim>\<open>TypeError\<close> when the
  merged configuration has no \<^verbatim>\<open>environment\<close> or a \<^verbatim>\<open>null\<close> one. Whatever is thrown,
  the \<^verbatim>\<open>catch\<close> throws the same error, which names the environment.
\<close>

definition loadEnvironment ::
  "config_files \<Rightarrow> process_env \<Rightarrow> string option \<Rightarrow> manager
     \<Rightarrow> (thrown + (string \<times> json) list) \<times> manager" where
  "loadEnvironment cfiles penv environment m =
     (let env = resolve_env penv environment;
          m1 = m\<lparr>currentEnvironment := env\<rparr>;
          not_found = Error (''Environment configuration not found for: '' @ env)
      in case loadConfigFile cfiles (config_path ''base'') of
           Inl _ \<Rightarrow> (Inl not_found, m1)
         | Inr baseConfig \<Rightarrow>
             (case loadConfigFile cfiles (config_path env) of
                Inl _ \<Rightarrow> (Inl not_found, m1)
              | Inr envConfig \<Rightarrow>
                  (let merged = mergeConfigs baseConfig envConfig;
                       m2 = m1\<lparr>config := Some merged\<rparr>
                   in case get_prop merged ''environment'' of
                        None \<Rightarrow> (Inl not_found, m2)
                      | Some JNull \<Rightarrow> (Inl not_found, m2)
                      | Some _ \<Rightarrow> (Inr merged, m2))))"

definition getConfig ::
  "config_files \<Rightarrow> process_env \<Rightarrow> manager \<Rightarrow> (thrown + (string \<times> json) list) \<times> manager" where
  "getConfig cfiles penv m =
     (case config m of
        None \<Rightarrow> loadEnvironment cfiles penv None m
      | Some c \<Rightarrow> (Inr c, m))"

definition getCurrentEnvironment :: "manager \<Rightarrow> string" where
  "getCurrentEnvironment m = currentEnvironment m"

section \<open>Double-precision arithmetic and the retry summary\<close>

text \<open>
  The success rate is computed in JavaScript numbers, IEEE 754 doubles. A finite double
  is a rational; \<open>fl x\<close> is the double nearest to the rational \<open>x\<close>, ties to the even
  significand, with a significand of 53 bits: an operation of the source on finite
  doubles is the exact operation followed by \<open>fl\<close>. \<open>exponent x\<close> is the integer \<open>e\<close>
  with \<open>2 ^ e \<le> \<bar>x\<bar> < 2 ^ (e + 1)\<close>. The range of the exponent is not modelled: the
  values met here lie between \<open>2 ^ - 32\<close> and \<open>2 ^ 39\<close> in absolute value.
\<close>

definition exponent :: "rat \<Rightarrow> int" where
  "exponent x =
     (let (p, q) = quotient_of \<bar>x\<bar>;
          d = bitlen p - bitlen q
      in if 2 powi d \<le> \<bar>x\<bar> then d else d - 1)"

definition round_half_even :: "rat \<Rightarrow> int" where
  "round_half_even y =
     (let f = \<lfloor>y\<rfloor>; r = y - of_int f
      in if r < 1 / 2 then f
         else if 1 / 2 < r then f + 1
         else if even f then f else f + 1)"

definition fl :: "rat \<Rightarrow> rat" where
  "fl x =
     (if x = 0 then 0
      else (let ulp = 2 powi (exponent x - 52)
            in of_int (round_half_even (x / ulp)) * ulp))"

text \<open>
  \<^verbatim>\<open>Number.prototype.toFixed(2)\<close> on a finite double \<open>x\<close>: with \<open>n\<close> the integer for which
  \<open>n / 100\<close> is nearest to \<open>\<bar>x\<bar>\<close>, the larger one of two, the digits of \<open>n\<close> with a
  point before the last two, at least one digit before the point, and a minus sign
  when \<open>x < 0\<close>.
\<close>

definition hundredths :: "rat \<Rightarrow> nat" where
  "hundredths x = nat \<lfloor>\<bar>x\<bar> * 100 + 1 / 2\<rfloor>"

definition fixed2 :: "nat \<Rightarrow> string" where
  "fixed2 n = show_nat (n div 100) @ ''.'' @ [digit_char (n div 10 mod 10), digit_char (n mod 10)]"

definition toFixed2 :: "rat \<Rightarrow> string" where
  "toFixed2 x = (if x < 0 then ''-'' else []) @ fixed2 (hundredths x)"

text \<open>
  \<^verbatim>\<open>((a - b) / a * 100).toFixed(2)\<close> for two array lengths. With \<open>a = 0\<close> the quotient
  is \<^verbatim>\<open>NaN\<close> or \<^verbatim>\<open>-Infinity\<close>, and \<^verbatim>\<open>toFixed\<close> gives its name.
\<close>

definition success_rate :: "nat \<Rightarrow> nat \<Rightarrow> string" where
  "success_rate a b =
     (if a = 0 then (if b = 0 then ''NaN'' else ''-Infinity'')
      else toFixed2 (fl (fl ((of_nat a - of_nat b) / of_nat a) * 100)))"

text \<open>
  \<open>generateRetryReport\<close> builds the summary and writes it to
  \<^verbatim>\<open>reports/retry-report.json\<close>; \<open>now\<close> is \<^verbatim>\<open>new Date().toISOString()\<close>.
\<close>

definition generateRetryReport :: "fs \<Rightarrow> string \<Rightarrow> FailedTest list \<Rightarrow> FailedTest list \<Rightarrow> fs" where
  "generateRetryReport files now originalFailed retryResults =
     (let retryReport =
        \<lparr> report_timestamp = now,
          originalFailures = int (length originalFailed),
          retriedTests = int (length originalFailed),
          stillFailing = int (length retryResults),
          recovered = int (length originalFailed) - int (length retryResults),
          successRate = success_rate (length originalFailed) (length retryResults),
          details =
            \<lparr> details_originalFailed = originalFailed,
              details_retryResults = retryResults,
              details_recovered =
                filter (\<lambda>original.
                          \<not> list_ex (\<lambda>retry. scenarioName retry = scenarioName original) retryResults)
                  originalFailed \<rparr> \<rparr>
      in files\<lparr>retry_report_file := Some (Json retryReport)\<rparr>)"

section \<open>Example data\<close>

text \<open>
  A report of two features and five scenarios, two of which fail; the second failing
  scenario has two failed steps. \<open>ex_clock\<close> is a clock that advances by one at each
  reading.
\<close>

definition passed_step :: step where
  "passed_step = \<lparr>result = Some \<lparr>status = ''passed'', error_message = None\<rparr>\<rparr>"

definition skipped_step :: step where
  "skipped_step = \<lparr>result = Some \<lparr>status = ''skipped'', error_message = None\<rparr>\<rparr>"

definition failed_step :: "string \<Rightarrow> step" where
  "failed_step msg = \<lparr>result = Some \<lparr>status = ''failed'', error_message = Some msg\<rparr>\<rparr>"

definition ex_report :: "feature list" where
  "ex_report =
     [\<lparr>feature_uri = Some ''src/features/search.feature'', feature_name = ''Search'',
        elements = Some
          [\<lparr>scenario_name = ''Search for user A'', scenario_line = Some 7,
              steps = Some [passed_step, failed_step ''Timeout 30000ms exceeded'', skipped_step]\<rparr>,
           \<lparr>scenario_name = ''Search for user C'', scenario_line = Some 15,
              steps = Some [passed_step, passed_step]\<rparr>,
           \<lparr>scenario_name = ''Open profile'', scenario_line = Some 22,
              steps = Some [passed_step]\<rparr>]\<rparr>,
      \<lparr>feature_uri = None, feature_name = ''Repositories'',
        elements = Some
          [\<lparr>scenario_name = ''Navigate to repos B'', scenario_line = None,
              steps = Some [failed_step ''element not found'', failed_step ''page crash'']\<rparr>,
           \<lparr>scenario_name = ''List repos'', scenario_line = Some 30,
              steps = Some [passed_step, skipped_step]\<rparr>]\<rparr>]"

definition ex_clock :: "nat \<Rightarrow> string" where
  "ex_clock k = ''2024-05-01T06:00:0'' @ show_nat k @ ''.000Z''"

definition ex_path :: string where
  "ex_path = ''reports/cucumber-report.json''"

definition ex_files :: fs where
  "ex_files = \<lparr>reports = [ex_path \<mapsto> Json ex_report],
               failed_tests_file = None, retry_report_file = None\<rparr>"

definition ex_test_A :: FailedTest where
  "ex_test_A = \<lparr>scenarioName = ''Search for user A'', featureFile = ''src/features/search.feature'',
                 line = 7, error = ''Timeout 30000ms exceeded'',
                 timestamp = ''2024-05-01T06:00:00.000Z'', attempt = 1\<rparr>"

definition ex_test_B :: FailedTest where
  "ex_test_B = \<lparr>scenarioName = ''Navigate to repos B'', featureFile = ''Repositories'',
                 line = 0, error = ''element not found'',
                 timestamp = ''2024-05-01T06:00:01.000Z'', attempt = 1\<rparr>"

text \<open>
  A report whose only failed step carries an empty error message, and the command line
  of the retry script with its defaults.
\<close>

definition ex_report_no_message :: "feature list" where
  "ex_report_no_message =
     [\<lparr>feature_uri = Some ''src/features/login.feature'', feature_name = ''Login'',
        elements = Some
          [\<lparr>scenario_name = ''Sign in'', scenario_line = Some 5,
              steps = Some [passed_step, failed_step '''']\<rparr>]\<rparr>]"

definition ex_cli :: cli where
  "ex_cli = \<lparr>ENVIRONMENT = ''dev'', MAX_RETRIES = 3, REPORT_PATH = ex_path,
              CLEAR_FAILED = False, SHOW_STATS = False\<rparr>"

text \<open>
  A configuration directory with a base file and the \<^verbatim>\<open>dev\<close> environment, and none for
  \<^verbatim>\<open>staging\<close>.
\<close>

definition ex_base :: json where
  "ex_base = JObj [(''browser'', JObj [(''headless'', JBool True), (''timeout'', JNum 30000)]),
                   (''test'', JObj [(''retries'', JNum 2), (''workers'', JNum 4)]),
                   (''users'', JObj [(''testUsers'', JArr [JStr ''octocat''])])]"

definition ex_dev :: json where
  "ex_dev = JObj [(''environment'', JObj [(''name'', JStr ''Development'')]),
                  (''browser'', JObj [(''headless'', JBool False)]),
                  (''users'', JObj [(''testUsers'', JArr [JStr ''torvalds'', JStr ''gaearon''])])]"

definition ex_configs :: config_files where
  "ex_configs = [config_path ''base'' \<mapsto> Json ex_base, config_path ''dev'' \<mapsto> Json ex_dev,
                 config_path ''broken'' \<mapsto> Malformed]"

definition ex_manager :: manager where
  "ex_manager = \<lparr>config = None, currentEnvironment = ''dev''\<rparr>"

section \<open>Properties of ParallelHelpers\<close>

subsection \<open>Worker counts\<close>

text \<open>
  Claim C6 as stated says that the recommended worker count never exceeds 8 on any
  machine and under any environment setting. With 8 CPUs, 16 GB, no CI variable and
  \<^verbatim>\<open>CUCUMBER_WORKERS=20\<close> the override is returned as it is: 20.
\<close>

theorem workers_override_exceeds_cap:
  "\<not> (\<exists>n. getRecommendedWorkerCount [''CUCUMBER_WORKERS'' \<mapsto> ''20''] 8 (16 * 2 ^ 30) = Num n
          \<and> 0 < n \<and> n \<le> 8)"
  by (simp add: getRecommendedWorkerCount_def isCI_def getWorkerCount_def or_else_def
      parseInt_def isWhiteSpace_def isDigit_def digitValue_def)

text \<open>
  Claim C6, amended. Outside CI and with no worker-count override, the recommended
  worker count is \<open>min (max 1 (cpuCount div 2)) (totalmem div 2 ^ 29)\<close> capped at 8
  (\<open>totalmem div 2 ^ 29\<close> is \<open>floor (totalMemoryGB / 0.5)\<close>), so it never exceeds 8,
  and it is positive when the machine has at least 0.5 GB. Outside CI, an override
  (\<^verbatim>\<open>CUCUMBER_WORKERS\<close>, else \<^verbatim>\<open>PLAYWRIGHT_WORKERS\<close>) that parses as a positive integer
  is returned as it is, whatever its size. Under CI the result is 2, or
  \<open>max 1 n\<close> when \<^verbatim>\<open>CI_WORKERS\<close> parses as the integer \<open>n\<close>.
\<close>

theorem recommended_worker_count:
  "(\<not> isCI env \<and> \<not> truthy (env ''CUCUMBER_WORKERS'') \<and> \<not> truthy (env ''PLAYWRIGHT_WORKERS'') \<longrightarrow>
      getRecommendedWorkerCount env cpuCount totalmem
        = Num (min (min (max 1 (int (cpuCount div 2))) (int (totalmem div 2 ^ 29))) 8)
      \<and> (\<exists>n. getRecommendedWorkerCount env cpuCount totalmem = Num n \<and> n \<le> 8
             \<and> (2 ^ 29 \<le> totalmem \<longrightarrow> 1 \<le> n)))
   \<and> (\<not> isCI env \<and> or_else (env ''CUCUMBER_WORKERS'') (env ''PLAYWRIGHT_WORKERS'') = Some s
        \<and> s \<noteq> [] \<and> parseInt s = Num n \<and> 0 < n \<longrightarrow>
      getRecommendedWorkerCount env cpuCount totalmem = Num n)
   \<and> (isCI env \<and> \<not> truthy (env ''CI_WORKERS'') \<longrightarrow>
      getRecommendedWorkerCount env cpuCount totalmem = Num 2)
   \<and> (isCI env \<and> env ''CI_WORKERS'' = Some s \<and> s \<noteq> [] \<and> parseInt s = Num n \<longrightarrow>
      getRecommendedWorkerCount env cpuCount totalmem = Num (max 1 n))"
proof -
  have pos: "1 \<le> totalmem div 2 ^ 29" if "2 ^ 29 \<le> totalmem"
    using that by (simp add: Suc_le_eq div_greater_zero_iff)
  have a: "\<not> isCI env \<and> \<not> truthy (env ''CUCUMBER_WORKERS'') \<and> \<not> truthy (env ''PLAYWRIGHT_WORKERS'') \<longrightarrow>
      getRecommendedWorkerCount env cpuCount totalmem
        = Num (min (min (max 1 (int (cpuCount div 2))) (int (totalmem div 2 ^ 29))) 8)
      \<and> (\<exists>n. getRecommendedWorkerCount env cpuCount totalmem = Num n \<and> n \<le> 8
             \<and> (2 ^ 29 \<le> totalmem \<longrightarrow> 1 \<le> n))"
    using pos
    by (auto simp: getRecommendedWorkerCount_def getWorkerCount_def or_else_def
        getOptimalWorkerCount_def Let_def)
  have b: "\<not> isCI env \<and> or_else (env ''CUCUMBER_WORKERS'') (env ''PLAYWRIGHT_WORKERS'') = Some s
        \<and> s \<noteq> [] \<and> parseInt s = Num n \<and> 0 < n \<longrightarrow>
      getRecommendedWorkerCount env cpuCount totalmem = Num n"
    by (simp add: getRecommendedWorkerCount_def getWorkerCount_def Let_def)
  have c: "isCI env \<and> \<not> truthy (env ''CI_WORKERS'') \<longrightarrow>
      getRecommendedWorkerCount env cpuCount totalmem = Num 2"
    by (simp add: getRecommendedWorkerCount_def getCIWorkerCount_def Let_def)
  have d: "isCI env \<and> env ''CI_WORKERS'' = Some s \<and> s \<noteq> [] \<and> parseInt s = Num n \<longrightarrow>
      getRecommendedWorkerCount env cpuCount totalmem = Num (max 1 n)"
    by (simp add: getRecommendedWorkerCount_def getCIWorkerCount_def Let_def)
  show ?thesis using a b c d by blast
qed

text \<open>
  The theorem at work: 8 CPUs and 16 GB outside CI give 4 workers; an override of 6
  gives 6; under CI with no \<^verbatim>\<open>CI_WORKERS\<close> the count is 2, and \<^verbatim>\<open>CI_WORKERS=3\<close> gives 3.
\<close>

theorem recommended_worker_count_witness:
  "getRecommendedWorkerCount Map.empty 8 (16 * 2 ^ 30) = Num 4
   \<and> getRecommendedWorkerCount [''PLAYWRIGHT_WORKERS'' \<mapsto> ''6''] 8 (16 * 2 ^ 30) = Num 6
   \<and> getRecommendedWorkerCount [''CI'' \<mapsto> ''true''] 8 (16 * 2 ^ 30) = Num 2
   \<and> getRecommendedWorkerCount [''CI'' \<mapsto> ''true'', ''CI_WORKERS'' \<mapsto> ''3''] 8 (16 * 2 ^ 30)
       = Num 3"
proof -
  have p6: "parseInt ''6'' = Num 6" and p3: "parseInt ''3'' = Num 3"
    by (simp_all add: parseInt_def isWhiteSpace_def isDigit_def digitValue_def)
  have a: "getRecommendedWorkerCount Map.empty 8 (16 * 2 ^ 30) = Num 4"
    using recommended_worker_count
      [where env = Map.empty and cpuCount = 8 and totalmem = "16 * 2 ^ 30"]
    by (simp add: isCI_def)
  have b: "getRecommendedWorkerCount [''PLAYWRIGHT_WORKERS'' \<mapsto> ''6''] 8 (16 * 2 ^ 30) = Num 6"
    using recommended_worker_count
      [where env = "[''PLAYWRIGHT_WORKERS'' \<mapsto> ''6'']" and s = "''6''" and n = 6
         and cpuCount = 8 and totalmem = "16 * 2 ^ 30"] p6
    by (simp add: isCI_def or_else_def)
  have c: "getRecommendedWorkerCount [''CI'' \<mapsto> ''true''] 8 (16 * 2 ^ 30) = Num 2"
    using recommended_worker_count
      [where env = "[''CI'' \<mapsto> ''true'']" and cpuCount = 8 and totalmem = "16 * 2 ^ 30"]
    by (simp add: isCI_def)
  have d: "getRecommendedWorkerCount [''CI'' \<mapsto> ''true'', ''CI_WORKERS'' \<mapsto> ''3''] 8 (16 * 2 ^ 30)
       = Num 3"
    using recommended_worker_count
      [where env = "[''CI'' \<mapsto> ''true'', ''CI_WORKERS'' \<mapsto> ''3'']" and s = "''3''" and n = 3
         and cpuCount = 8 and totalmem = "16 * 2 ^ 30"] p3
    by (simp add: isCI_def)
  show ?thesis using a b c d by simp
qed

subsection \<open>Splitting scenarios across workers\<close>

lemma forEach_push_length: "length (forEach_push xs i w cs) = length cs"
  by (induction xs arbitrary: i cs) (auto simp: Let_def)

lemma forEach_push_nth:
  "0 < w \<Longrightarrow> length cs = w \<Longrightarrow> k < w \<Longrightarrow>
   forEach_push xs i w cs ! k =
     cs ! k @ map fst (filter (\<lambda>(x, j). j mod w = k) (zip xs [i..<i + length xs]))"
proof (induction xs arbitrary: i cs)
  case Nil
  then show ?case by simp
next
  case (Cons x xs)
  have up: "[i..<i + length (x # xs)] = i # [Suc i..<Suc i + length xs]"
    by (subst upt_rec) simp
  show ?case using Cons.prems
    unfolding up by (simp add: Cons.IH Let_def nth_list_update)
qed


lemma concat_update_mset:
  "k < length cs \<Longrightarrow> mset (concat (cs[k := cs ! k @ [s]])) = mset (concat cs) + {#s#}"
  by (induction cs arbitrary: k) (auto simp: nth_Cons split: nat.splits)

lemma forEach_push_mset:
  "0 < w \<Longrightarrow> length cs = w \<Longrightarrow>
   mset (concat (forEach_push xs i w cs)) = mset (concat cs) + mset xs"
  by (induction xs arbitrary: i cs) (auto simp: Let_def concat_update_mset)

lemma concat_filter_nonempty: "concat (filter (\<lambda>c. c \<noteq> []) cs) = concat cs"
  by (induction cs) auto


lemma round_robin_count:
  "0 < w \<Longrightarrow> k < w \<Longrightarrow>
   Suc i div w + (if k < Suc i mod w then 1 else 0) =
   i div w + (if k < i mod w then 1 else 0) + (if k = i mod w then 1 else (0::nat))"
  by (auto simp: mod_Suc div_Suc)

lemma forEach_push_inv:
  assumes "0 < w" "length cs = w" "xs = drop i orig" "i \<le> length orig"
    and "\<forall>k<w. length (cs ! k) = i div w + (if k < i mod w then 1 else 0)"
    and "\<forall>j<i. cs ! (j mod w) ! (j div w) = orig ! j"
  shows "(\<forall>k<w. length (forEach_push xs i w cs ! k) =
            length orig div w + (if k < length orig mod w then 1 else 0)) \<and>
         (\<forall>j<length orig. forEach_push xs i w cs ! (j mod w) ! (j div w) = orig ! j)"
  using assms
proof (induction xs arbitrary: i cs)
  case Nil
  then have "i = length orig" by simp
  with Nil show ?case by simp
next
  case (Cons x xs)
  let ?m = "i mod w"
  let ?cs = "cs[?m := cs ! ?m @ [x]]"
  from Cons.prems have i: "i < length orig"
    by (metis drop_all leI list.distinct(1))
  have x: "x = orig ! i" and xs: "xs = drop (Suc i) orig"
    using Cons.prems(3) i by (simp_all add: Cons_nth_drop_Suc [symmetric])
  have m: "?m < w" using Cons.prems(1) by simp
  have len: "\<forall>k<w. length (?cs ! k) = Suc i div w + (if k < Suc i mod w then 1 else 0)"
    using Cons.prems(1,2,5) m by (simp add: nth_list_update round_robin_count)
  have pos: "\<forall>j<Suc i. ?cs ! (j mod w) ! (j div w) = orig ! j"
  proof (intro allI impI)
    fix j assume j: "j < Suc i"
    have jm: "j mod w < w" using Cons.prems(1) by simp
    show "?cs ! (j mod w) ! (j div w) = orig ! j"
    proof (cases "j = i")
      case True
      have "length (cs ! ?m) = i div w" using Cons.prems(5) m by simp
      then show ?thesis using True x m Cons.prems(2) by (simp add: nth_append)
    next
      case False
      then have ji: "j < i" using j by simp
      then have old: "cs ! (j mod w) ! (j div w) = orig ! j" using Cons.prems(6) by simp
      have "j div w < length (cs ! (j mod w))"
      proof -
        have "j div w \<le> i div w" using ji by (simp add: div_le_mono)
        moreover have "j div w = i div w \<Longrightarrow> j mod w < i mod w"
          using ji by (metis div_mult_mod_eq nat_add_left_cancel_less)
        ultimately show ?thesis using Cons.prems(5) jm by (auto simp: le_less)
      qed
      then show ?thesis using old jm Cons.prems(2)
        by (simp add: nth_list_update nth_append)
    qed
  qed
  have eq: "forEach_push (x # xs) i w cs = forEach_push xs (Suc i) w ?cs"
    using Cons.prems(1,2) m by (simp add: Let_def)
  have l: "length ?cs = w" using Cons.prems(2) by simp
  have "Suc i \<le> length orig" using i by simp
  from Cons.IH [OF Cons.prems(1) l xs this len pos] show ?case
    unfolding eq .
qed

lemma filter_prefix:
  "(\<forall>k<length cs. P (cs ! k) \<longleftrightarrow> k < m) \<Longrightarrow> filter P cs = take m cs"
proof (induction cs arbitrary: m)
  case Nil
  then show ?case by simp
next
  case (Cons c cs)
  show ?case
  proof (cases m)
    case 0
    with Cons.prems have "\<forall>x\<in>set (c # cs). \<not> P x"
      by (metis in_set_conv_nth less_nat_zero_code)
    then have "filter P (c # cs) = []" by (simp only: filter_empty_conv) 
    then show ?thesis using 0 by simp
  next
    case (Suc m')
    from Cons.prems Suc have "P c" by (metis length_Cons nth_Cons_0 zero_less_Suc)
    moreover have "\<forall>k<length cs. P (cs ! k) \<longleftrightarrow> k < m'"
      using Cons.prems Suc by (metis Suc_less_eq length_Cons nth_Cons_Suc)
    ultimately show ?thesis using Suc Cons.IH by simp
  qed
qed

lemma subseq_zip_filter: "subseq (map fst (filter P (zip xs js))) xs"
proof (induction xs arbitrary: js)
  case Nil
  then show ?case by simp
next
  case (Cons x xs)
  then show ?case by (cases js) (auto intro: subseq_Cons')
qed


lemma chunks_shape:
  fixes xs :: "'a list"
  assumes "0 < w"
  defines "cs \<equiv> forEach_push xs 0 w (replicate w [])"
  shows "length cs = w"
    and "\<forall>k<w. length (cs ! k) = length xs div w + (if k < length xs mod w then 1 else 0)"
    and "\<forall>j<length xs. cs ! (j mod w) ! (j div w) = xs ! j"
proof -
  show "length cs = w" by (simp add: cs_def forEach_push_length)
  have "(\<forall>k<w. length (cs ! k) = length xs div w + (if k < length xs mod w then 1 else 0)) \<and>
        (\<forall>j<length xs. cs ! (j mod w) ! (j div w) = xs ! j)"
    unfolding cs_def using assms(1)
    by (intro forEach_push_inv [where i = 0 and orig = xs]) simp_all
  then show "\<forall>k<w. length (cs ! k) = length xs div w + (if k < length xs mod w then 1 else 0)"
    and "\<forall>j<length xs. cs ! (j mod w) ! (j div w) = xs ! j" by blast+
qed

lemma split_is_prefix:
  assumes "0 < w"
  shows "splitScenariosAcrossWorkers xs w =
           take (min (length xs) w) (forEach_push xs 0 w (replicate w []))"
proof -
  let ?cs = "forEach_push xs 0 w (replicate w [])"
  note sh = chunks_shape [OF assms, of xs]
  have "\<forall>k<length ?cs. (length (?cs ! k) > 0) \<longleftrightarrow> k < min (length xs) w"
  proof (intro allI impI)
    fix k assume "k < length ?cs"
    then have k: "k < w" using sh(1) by simp
    have len: "length (?cs ! k) = length xs div w + (if k < length xs mod w then 1 else 0)"
      using sh(2) k by blast
    show "(length (?cs ! k) > 0) \<longleftrightarrow> k < min (length xs) w"
    proof (cases "length xs < w")
      case True
      then show ?thesis using len k by simp
    next
      case False
      then have "0 < length xs div w" using assms by (simp add: div_greater_zero_iff)
      then show ?thesis using len k False by simp
    qed
  qed
  then show ?thesis
    unfolding splitScenariosAcrossWorkers_def by (rule filter_prefix)
qed

text \<open>
  Claim C10. For every scenario list and every \<open>workerCount \<ge> 1\<close>,
  \<open>splitScenariosAcrossWorkers\<close> returns a partition of the input: the chunks hold
  the input's elements, each once (as a multiset); the element at index \<open>i\<close> sits in
  chunk \<open>i mod workerCount\<close> at position \<open>i div workerCount\<close> (round robin); every chunk
  is a subsequence of the input, so the input's order is kept; no chunk is empty; there
  are \<open>min (length scenarios) workerCount\<close> chunks, so at most \<open>workerCount\<close>; and any
  two chunk sizes differ by at most one.
\<close>

theorem split_partition:
  assumes "1 \<le> workerCount"
  shows "length (splitScenariosAcrossWorkers scenarios workerCount)
           = min (length scenarios) workerCount
       \<and> length (splitScenariosAcrossWorkers scenarios workerCount) \<le> workerCount
       \<and> (\<forall>chunk \<in> set (splitScenariosAcrossWorkers scenarios workerCount). chunk \<noteq> [])
       \<and> mset (concat (splitScenariosAcrossWorkers scenarios workerCount)) = mset scenarios
       \<and> (\<forall>i<length scenarios.
             i mod workerCount < length (splitScenariosAcrossWorkers scenarios workerCount)
           \<and> i div workerCount
               < length (splitScenariosAcrossWorkers scenarios workerCount ! (i mod workerCount))
           \<and> splitScenariosAcrossWorkers scenarios workerCount
                ! (i mod workerCount) ! (i div workerCount) = scenarios ! i)
       \<and> (\<forall>chunk \<in> set (splitScenariosAcrossWorkers scenarios workerCount).
             subseq chunk scenarios)
       \<and> (\<forall>c \<in> set (splitScenariosAcrossWorkers scenarios workerCount).
          \<forall>d \<in> set (splitScenariosAcrossWorkers scenarios workerCount).
             length c \<le> length d + 1)"
proof -
  let ?w = workerCount and ?xs = scenarios
  let ?cs = "forEach_push ?xs 0 ?w (replicate ?w [])"
  let ?r = "splitScenariosAcrossWorkers ?xs ?w"
  let ?n = "min (length ?xs) ?w"
  from assms have w: "0 < ?w" by simp
  note sh = chunks_shape [OF w, of ?xs]
  have r: "?r = take ?n ?cs" by (rule split_is_prefix [OF w])
  have lr: "length ?r = ?n" using sh(1) by (simp add: r)
  have nth_r: "?r ! k = ?cs ! k" if "k < ?n" for k using that by (simp add: r)
  have len_r: "length (?r ! k) = length ?xs div ?w + (if k < length ?xs mod ?w then 1 else 0)"
    if "k < ?n" for k using that sh(2) nth_r by simp
  have nonempty: "\<forall>chunk \<in> set ?r. chunk \<noteq> []"
    by (auto simp: splitScenariosAcrossWorkers_def)
  have part: "mset (concat ?r) = mset ?xs"
    unfolding splitScenariosAcrossWorkers_def
    by (simp add: concat_filter_nonempty forEach_push_mset [OF w])
  have rr: "\<forall>i<length ?xs. i mod ?w < length ?r \<and> i div ?w < length (?r ! (i mod ?w))
              \<and> ?r ! (i mod ?w) ! (i div ?w) = ?xs ! i"
  proof (intro allI impI)
    fix i assume i: "i < length ?xs"
    have k: "i mod ?w < ?n" using i w
      by (metis min_less_iff_conj mod_less_divisor mod_less_eq_dividend order_le_less_trans)
    have "i div ?w < length (?r ! (i mod ?w))"
    proof -
      have "i div ?w \<le> length ?xs div ?w" using i by (simp add: div_le_mono)
      moreover have "i div ?w = length ?xs div ?w \<Longrightarrow> i mod ?w < length ?xs mod ?w"
        using i by (metis div_mult_mod_eq nat_add_left_cancel_less)
      ultimately show ?thesis using len_r [OF k] by (auto simp: le_less)
    qed
    moreover have "?r ! (i mod ?w) ! (i div ?w) = ?xs ! i"
      using sh(3) i nth_r [OF k] by simp
    ultimately show "i mod ?w < length ?r \<and> i div ?w < length (?r ! (i mod ?w))
              \<and> ?r ! (i mod ?w) ! (i div ?w) = ?xs ! i"
      using k lr by simp
  qed
  have order: "\<forall>chunk \<in> set ?r. subseq chunk ?xs"
  proof
    fix chunk assume "chunk \<in> set ?r"
    then obtain k where k: "k < ?n" and c: "chunk = ?r ! k"
      by (metis in_set_conv_nth lr)
    have "chunk = ?cs ! k" using c nth_r [OF k] by simp
    also have "\<dots> = replicate ?w [] ! k @ map fst
         (filter (\<lambda>(x, j). j mod ?w = k) (zip ?xs [0..<0 + length ?xs]))"
      using k w by (intro forEach_push_nth) simp_all
    finally show "subseq chunk ?xs" using k by (simp add: subseq_zip_filter)
  qed
  have bal: "\<forall>c \<in> set ?r. \<forall>d \<in> set ?r. length c \<le> length d + 1"
  proof (intro ballI)
    fix c d assume "c \<in> set ?r" "d \<in> set ?r"
    then obtain k l where "k < ?n" "c = ?r ! k" "l < ?n" "d = ?r ! l"
      by (metis in_set_conv_nth lr)
    then show "length c \<le> length d + 1" using len_r by simp
  qed
  show ?thesis using lr nonempty part rr order bal by simp
qed

text \<open>Seven scenarios on three workers.\<close>

theorem split_partition_witness:
  "(1::nat) \<le> 3 \<and> splitScenariosAcrossWorkers [1, 2, 3, 4, 5, 6, 7 :: nat] 3
      = [[1, 4, 7], [2, 5], [3, 6]]
   \<and> length (splitScenariosAcrossWorkers [1, 2, 3, 4, 5, 6, 7 :: nat] 3) \<le> 3
   \<and> mset (concat (splitScenariosAcrossWorkers [1, 2, 3, 4, 5, 6, 7 :: nat] 3))
       = mset [1, 2, 3, 4, 5, 6, 7]"
proof -
  have h: "(1::nat) \<le> 3" by simp
  have e: "splitScenariosAcrossWorkers [1, 2, 3, 4, 5, 6, 7 :: nat] 3
      = [[1, 4, 7], [2, 5], [3, 6]]"
    by code_simp
  show ?thesis using h e split_partition [OF h, of "[1, 2, 3, 4, 5, 6, 7 :: nat]"] by simp
qed

section \<open>Properties of RetryHelpers and of the retry script\<close>

subsection \<open>Extraction of failures\<close>

lemma forEach_scenario_eq:
  "forEach_scenario now ft scs acc =
     acc @ map (\<lambda>(k, sc). failed_test_of now ft sc k)
             (enumerate (length acc) (filter hasFailedSteps scs))"
  by (induction scs arbitrary: acc) simp_all

lemma enumerate_map: "enumerate n (map f xs) = map (\<lambda>(k, x). (k, f x)) (enumerate n xs)"
  by (induction xs arbitrary: n) simp_all

lemma forEach_feature_eq:
  "forEach_feature now reportData acc =
     acc @ map (\<lambda>(k, ft, sc). failed_test_of now ft sc k)
             (enumerate (length acc) (failing_scenarios reportData))"
proof (induction reportData arbitrary: acc)
  case Nil
  then show ?case by (simp add: failing_scenarios_def report_scenarios_def)
next
  case (Cons ft rest)
  show ?case
  proof (cases "elements ft")
    case None
    then show ?thesis
      using Cons.IH [of acc] by (simp add: failing_scenarios_def report_scenarios_def)
  next
    case (Some scs)
    have split: "failing_scenarios (ft # rest) =
        map (Pair ft) (filter hasFailedSteps scs) @ failing_scenarios rest"
      using Some by (simp add: failing_scenarios_def report_scenarios_def filter_map comp_def)
    show ?thesis
      using Some Cons.IH [of "forEach_scenario now ft scs acc"]
      by (simp add: split forEach_scenario_eq enumerate_append_eq enumerate_map
          case_prod_unfold comp_def add.commute)
  qed
qed

lemma hasFailedSteps_iff:
  "hasFailedSteps sc \<longleftrightarrow>
     (\<exists>sts st r. steps sc = Some sts \<and> st \<in> set sts \<and> result st = Some r \<and> status r = ''failed'')"
  by (auto simp: hasFailedSteps_def step_failed_def list_ex_iff split: option.splits)

lemma failed_error_first:
  assumes "hasFailedSteps sc"
  shows "\<exists>sts i r. steps sc = Some sts \<and> i < length sts \<and> result (sts ! i) = Some r
            \<and> status r = ''failed'' \<and> (\<forall>j<i. \<not> step_failed (sts ! j))
            \<and> failed_error (failedStep sc)
                = (case error_message r of None \<Rightarrow> ''Unknown error''
                   | Some m \<Rightarrow> if m = [] then ''Unknown error'' else m)"
proof -
  from assms obtain sts where sts: "steps sc = Some sts" and ex: "list_ex step_failed sts"
    by (auto simp: hasFailedSteps_def split: option.splits)
  then obtain st where f: "find step_failed sts = Some st"
    by (cases "find step_failed sts") (auto simp: find_None_iff list_ex_iff)
  then obtain i where i: "i < length sts" "step_failed (sts ! i)" "st = sts ! i"
      "\<forall>j<i. \<not> step_failed (sts ! j)"
    by (auto simp: find_Some_iff)
  from i(2) obtain r where r: "result (sts ! i) = Some r" "status r = ''failed''"
    by (auto simp: step_failed_def split: option.splits)
  have "failed_error (failedStep sc)
      = (case error_message r of None \<Rightarrow> ''Unknown error''
         | Some m \<Rightarrow> if m = [] then ''Unknown error'' else m)"
    using sts f i(3) r(1) by (simp add: failed_error_def failedStep_def split: option.splits)
  then show ?thesis using sts i r by blast
qed

text \<open>
  Claim C1, amended. For a report that parses, \<open>parseFailedTestsFromReport\<close> returns one
  record per scenario with at least one step of status \<^verbatim>\<open>failed\<close>, in document order
  (one per scenario, not one per failed step), each with \<open>attempt = 1\<close>. Its \<open>error\<close> is
  the \<^verbatim>\<open>error_message\<close> of the first failed step when that message is present and not
  empty, and \<^verbatim>\<open>Unknown error\<close> otherwise. A report with no failed step gives the empty
  list. A step counts as failed only when its result has the status \<^verbatim>\<open>failed\<close>.
\<close>

theorem parse_failed_tests:
  "reports files reportPath = Some (Json reportData) \<Longrightarrow>
   (\<exists>failedTests. parseFailedTestsFromReport files now reportPath = Inr failedTests
      \<and> length failedTests = length (failing_scenarios reportData)
      \<and> (\<forall>k < length failedTests.
            scenarioName (failedTests ! k) = scenario_name (snd (failing_scenarios reportData ! k))
          \<and> attempt (failedTests ! k) = 1
          \<and> (\<exists>sts i r. steps (snd (failing_scenarios reportData ! k)) = Some sts
                \<and> i < length sts \<and> result (sts ! i) = Some r \<and> status r = ''failed''
                \<and> (\<forall>j<i. \<not> step_failed (sts ! j))
                \<and> error (failedTests ! k)
                    = (case error_message r of None \<Rightarrow> ''Unknown error''
                       | Some m \<Rightarrow> if m = [] then ''Unknown error'' else m)))
      \<and> (failing_scenarios reportData = [] \<longrightarrow> failedTests = []))
   \<and> (\<forall>sc. hasFailedSteps sc \<longleftrightarrow>
         (\<exists>sts st r. steps sc = Some sts \<and> st \<in> set sts \<and> result st = Some r
            \<and> status r = ''failed''))
   \<and> (\<forall>st. step_failed st \<longleftrightarrow> (\<exists>r. result st = Some r \<and> status r = ''failed''))"
proof -
  assume rp: "reports files reportPath = Some (Json reportData)"
  let ?fs = "failing_scenarios reportData"
  let ?r = "map (\<lambda>(k, ft, sc). failed_test_of now ft sc k) (enumerate 0 ?fs)"
  have res: "parseFailedTestsFromReport files now reportPath = Inr ?r"
    using rp
    by (simp add: parseFailedTestsFromReport_def parse_report_try_def existsSync_def
        forEach_feature_eq)
  have len: "length ?r = length ?fs" by simp
  have each: "scenarioName (?r ! k) = scenario_name (snd (?fs ! k))
          \<and> attempt (?r ! k) = 1
          \<and> (\<exists>sts i r. steps (snd (?fs ! k)) = Some sts
                \<and> i < length sts \<and> result (sts ! i) = Some r \<and> status r = ''failed''
                \<and> (\<forall>j<i. \<not> step_failed (sts ! j))
                \<and> error (?r ! k)
                    = (case error_message r of None \<Rightarrow> ''Unknown error''
                       | Some m \<Rightarrow> if m = [] then ''Unknown error'' else m))"
    if k: "k < length ?r" for k
  proof -
    from k have k': "k < length ?fs" by simp
    obtain ft sc where p: "?fs ! k = (ft, sc)" by (cases "?fs ! k")
    have rk: "?r ! k = failed_test_of now ft sc k"
      using k' p by (simp add: nth_enumerate_eq)
    have "(ft, sc) \<in> set ?fs" using k' p by (metis nth_mem)
    then have "hasFailedSteps sc" by (simp add: failing_scenarios_def)
    from failed_error_first [OF this] show ?thesis
      unfolding rk p by (simp add: failed_test_of_def)
  qed
  show ?thesis
    using res len each hasFailedSteps_iff
    by (auto simp: step_failed_def split: option.splits)
qed

text \<open>
  The example report: five scenarios, two of them failing, the second with two failed
  steps; the result has the two records, with the first failed step's message each.
\<close>

theorem parse_failed_tests_witness:
  "reports ex_files ex_path = Some (Json ex_report)
   \<and> parseFailedTestsFromReport ex_files ex_clock ex_path = Inr [ex_test_A, ex_test_B]
   \<and> map (scenario_name \<circ> snd) (failing_scenarios ex_report)
       = [''Search for user A'', ''Navigate to repos B'']"
proof -
  have h: "reports ex_files ex_path = Some (Json ex_report)"
    by (simp add: ex_files_def)
  have e: "parseFailedTestsFromReport ex_files ex_clock ex_path = Inr [ex_test_A, ex_test_B]"
    by code_simp
  have f: "map (scenario_name \<circ> snd) (failing_scenarios ex_report)
       = [''Search for user A'', ''Navigate to repos B'']"
    by code_simp
  from parse_failed_tests [OF h, of ex_clock] e have "length (failing_scenarios ex_report) = 2"
    by auto
  with h e f show ?thesis by simp
qed

text \<open>
  Claim C1 as stated says that the \<open>error\<close> field equals the first failed step's
  \<^verbatim>\<open>error_message\<close>. Here the first failed step has the empty message, and the
  record's \<open>error\<close> is \<^verbatim>\<open>Unknown error\<close>.
\<close>

theorem error_message_fallback:
  "parseFailedTestsFromReport
      \<lparr>reports = [ex_path \<mapsto> Json ex_report_no_message],
       failed_tests_file = None, retry_report_file = None\<rparr> ex_clock ex_path
     = Inr [\<lparr>scenarioName = ''Sign in'', featureFile = ''src/features/login.feature'',
              line = 5, error = ''Unknown error'',
              timestamp = ''2024-05-01T06:00:00.000Z'', attempt = 1\<rparr>]
   \<and> map (\<lambda>(ft, sc). Option.bind (Option.bind (failedStep sc) result) error_message)
         (failing_scenarios ex_report_no_message) = [Some '''']"
  by code_simp

subsection \<open>Missing and malformed reports\<close>

text \<open>
  Claim C2 as stated says that the extraction fails with an error on a missing report
  and on malformed content, and never returns zero failures for them. On a path that
  does not exist and on a file that does not parse it returns the empty list.
\<close>

theorem missing_report_is_no_failure:
  "parseFailedTestsFromReport
      \<lparr>reports = Map.empty, failed_tests_file = None, retry_report_file = None\<rparr>
      ex_clock ex_path = Inr []
   \<and> parseFailedTestsFromReport
      \<lparr>reports = [ex_path \<mapsto> Malformed], failed_tests_file = None, retry_report_file = None\<rparr>
      ex_clock ex_path = Inr []"
  by (simp add: parseFailedTestsFromReport_def parse_report_try_def existsSync_def)

text \<open>
  Claim C2, amended. \<open>parseFailedTestsFromReport\<close> never fails: it returns a list on
  every input, and the empty list when the report path does not exist or its content
  does not parse (the error is logged and not passed on to the caller).
\<close>

theorem parse_report_never_fails:
  "(\<exists>failedTests. parseFailedTestsFromReport files now reportPath = Inr failedTests)
   \<and> (reports files reportPath = None \<or> reports files reportPath = Some Malformed \<longrightarrow>
        parseFailedTestsFromReport files now reportPath = Inr [])"
  by (auto simp: parseFailedTestsFromReport_def parse_report_try_def existsSync_def
      split: sum.splits)

text \<open>A missing path and a malformed file.\<close>

theorem parse_report_never_fails_witness:
  "reports \<lparr>reports = [ex_path \<mapsto> Malformed], failed_tests_file = None,
             retry_report_file = None\<rparr> ''reports/other.json'' = None
   \<and> parseFailedTestsFromReport
        \<lparr>reports = [ex_path \<mapsto> Malformed], failed_tests_file = None, retry_report_file = None\<rparr>
        ex_clock ''reports/other.json'' = Inr []
   \<and> parseFailedTestsFromReport
        \<lparr>reports = [ex_path \<mapsto> Malformed], failed_tests_file = None, retry_report_file = None\<rparr>
        ex_clock ex_path = Inr []"
proof -
  let ?files = "\<lparr>reports = [ex_path \<mapsto> Malformed], failed_tests_file = None,
             retry_report_file = None\<rparr>"
  have a: "reports ?files ''reports/other.json'' = None" by (simp add: ex_path_def)
  have b: "reports ?files ex_path = Some Malformed" by simp
  show ?thesis
    using a b parse_report_never_fails [of ?files ex_clock "''reports/other.json''"]
      parse_report_never_fails [of ?files ex_clock ex_path]
    by blast
qed

subsection \<open>The registry\<close>

text \<open>
  Claim C7. \<open>saveFailedTest\<close> appends: the registry read back after the call is the
  registry read before followed by the new record; a registry file holding the list
  \<open>L\<close> holds \<open>L @ [t]\<close> afterwards, and a missing one holds \<open>[t]\<close>. Two calls leave
  both records, whatever their scenario names: nothing is deduplicated, removed or
  changed. The other files stay as they are.
\<close>

theorem save_failed_test_appends:
  "getFailedTests (saveFailedTest files t) = getFailedTests files @ [t]
   \<and> (failed_tests_file files = Some (Json L) \<longrightarrow>
        failed_tests_file (saveFailedTest files t) = Some (Json (L @ [t])))
   \<and> (failed_tests_file files = None \<longrightarrow>
        failed_tests_file (saveFailedTest files t) = Some (Json [t]))
   \<and> getFailedTests (saveFailedTest (saveFailedTest files t) t') = getFailedTests files @ [t, t']
   \<and> reports (saveFailedTest files t) = reports files
   \<and> retry_report_file (saveFailedTest files t) = retry_report_file files"
  by (simp add: saveFailedTest_def getFailedTests_def existsSync_def Let_def)

text \<open>
  Saving a record for a scenario the registry already lists leaves it there twice.
\<close>

theorem save_failed_test_appends_witness:
  "failed_tests_file (ex_files\<lparr>failed_tests_file := Some (Json [ex_test_A, ex_test_B])\<rparr>)
      = Some (Json [ex_test_A, ex_test_B])
   \<and> failed_tests_file
        (saveFailedTest (ex_files\<lparr>failed_tests_file := Some (Json [ex_test_A, ex_test_B])\<rparr>) ex_test_A)
      = Some (Json [ex_test_A, ex_test_B, ex_test_A])
   \<and> failed_tests_file ex_files = None
   \<and> failed_tests_file (saveFailedTest ex_files ex_test_B) = Some (Json [ex_test_B])"
proof -
  let ?files = "ex_files\<lparr>failed_tests_file := Some (Json [ex_test_A, ex_test_B])\<rparr>"
  have a: "failed_tests_file ?files = Some (Json [ex_test_A, ex_test_B])" by simp
  have b: "failed_tests_file ex_files = None" by (simp add: ex_files_def)
  show ?thesis
    using a b save_failed_test_appends [of ?files ex_test_A "[ex_test_A, ex_test_B]"]
      save_failed_test_appends [of ex_files ex_test_B]
    by simp
qed

text \<open>
  Claim C8 as stated says that after \<open>clear\<close> neither the registry nor the retry
  summary remains. \<open>RetryHelpers.clearFailedTests\<close> leaves the summary where it is.
\<close>

theorem clear_failed_tests_keeps_summary:
  "retry_report_file (clearFailedTests
      \<lparr>reports = Map.empty, failed_tests_file = Some (Json [ex_test_A]),
       retry_report_file = Some Malformed\<rparr>) = Some Malformed"
  by (simp add: clearFailedTests_def existsSync_def unlinkSync_registry_def)

text \<open>
  Claim C8, amended. Both clearing operations are total and idempotent. After
  \<open>RetryHelpers.clearFailedTests\<close> the registry file is gone and the retry summary is as
  it was before; after the script's \<open>clear_failed_tests\<close> both are gone. Neither touches
  a report.
\<close>

theorem clear_idempotent:
  "failed_tests_file (clearFailedTests files) = None
   \<and> retry_report_file (clearFailedTests files) = retry_report_file files
   \<and> reports (clearFailedTests files) = reports files
   \<and> clearFailedTests (clearFailedTests files) = clearFailedTests files
   \<and> failed_tests_file (clear_failed_tests files) = None
   \<and> retry_report_file (clear_failed_tests files) = None
   \<and> reports (clear_failed_tests files) = reports files
   \<and> clear_failed_tests (clear_failed_tests files) = clear_failed_tests files"
  by (simp add: clearFailedTests_def clear_failed_tests_def existsSync_def
      unlinkSync_registry_def Let_def)

subsection \<open>The exit status of the retry script\<close>

text \<open>
  The retry command is always empty: the snippet prints nothing for a missing or empty
  registry, and throws for one that does not parse and, at the template string, for
  one that lists a test. So the loop never starts the test runner and ends with status
  0 at its first attempt, and the exit status of the script does not depend on what
  the runner would do.
\<close>

lemma retry_command_empty: "retry_command files = []"
  by (simp add: retry_command_def retry_command_node_def Let_def
      split: sum.splits option.splits json_file.splits)

lemma retry_attempts_never_run: "retry_attempts 0 run files a n = Inr 0"
  by (cases n) (simp_all add: retry_command_empty)

lemma main_ignores_runner:
  "main args now loader_status run files = main args now loader_status run' files"
proof -
  have "retry_attempts loader_status run fs a n = retry_attempts loader_status run' fs a n"
    for fs a n
    by (cases n) (simp_all add: retry_command_empty)
  then have r: "retry_failed_tests args loader_status run fs
      = retry_failed_tests args loader_status run' fs" for fs
    by (simp add: retry_failed_tests_def)
  show ?thesis by (simp only: main_def r)
qed

text \<open>
  Claim C5 says that the exit status of the retry script is non-zero when a scenario
  is still failing after the last attempt. With the default three attempts and a report
  with two failing scenarios, the script exits with status 0: the registry is written,
  the retry command is empty, and the loop ends without a test run. The runner given
  here would exit non-zero and leave a report with the same two failures at every
  attempt.
\<close>

theorem retry_exit_status_absorbs_failure:
  "main ex_cli ex_clock 0 (\<lambda>k. (False, Some (Json ex_report))) ex_files = 0
   \<and> extract_failed_tests_from_retry (Some (Json ex_report)) = 1"
  by code_simp

subsection \<open>The retry command\<close>

text \<open>
  Claim C4 says that, for a non-empty registry, the retry invocation selects a scenario
  if and only if its name equals a recorded failing name, the names combined by OR.
  With the two failed tests of the example recorded,
  \<open>RetryHelpers.generateRetryCommand\<close> joins the names by a space into one expression,
  which occurs in neither of the two scenario names, so neither failing scenario is
  selected; and the retry command of the script is empty, so no invocation is built.
\<close>

theorem retry_commands_miss_failing_scenarios:
  "generateRetryCommand (ex_files\<lparr>failed_tests_file := Some (Json [ex_test_A, ex_test_B])\<rparr>)
     = Some ''cucumber-js src/features/search.feature Repositories --name \"Search for user A Navigate to repos B\"''
   \<and> \<not> name_filter_selects ''Search for user A Navigate to repos B'' ''Search for user A''
   \<and> \<not> name_filter_selects ''Search for user A Navigate to repos B'' ''Navigate to repos B''
   \<and> retry_scenarios [ex_test_A, ex_test_B] = ''Search for user A|Navigate to repos B''
   \<and> retry_command_node (ex_files\<lparr>failed_tests_file := Some (Json [ex_test_A, ex_test_B])\<rparr>)
       = Inl ReferenceError
   \<and> retry_command (ex_files\<lparr>failed_tests_file := Some (Json [ex_test_A, ex_test_B])\<rparr>) = []"
  by code_simp

section \<open>Properties of EnvironmentManager\<close>

text \<open>
  Claim C9. \<open>loadEnvironment\<close> is not atomic on failure: when the base file or the file
  of the environment is missing or does not parse, the call throws, the cached
  configuration is what it was before (so \<open>getConfig\<close> still returns the configuration
  loaded earlier, without reading a file), and \<open>getCurrentEnvironment\<close> returns the
  name of the environment that failed to load.
\<close>

theorem load_environment_not_atomic:
  assumes "env = resolve_env penv environment"
    and "cfiles (config_path ''base'') = None \<or> cfiles (config_path ''base'') = Some Malformed
       \<or> cfiles (config_path env) = None \<or> cfiles (config_path env) = Some Malformed"
  shows "fst (loadEnvironment cfiles penv environment m)
           = Inl (Error (''Environment configuration not found for: '' @ env))
       \<and> config (snd (loadEnvironment cfiles penv environment m)) = config m
       \<and> getCurrentEnvironment (snd (loadEnvironment cfiles penv environment m)) = env
       \<and> (\<forall>c. config m = Some c \<longrightarrow>
            getConfig cfiles penv (snd (loadEnvironment cfiles penv environment m))
              = (Inr c, snd (loadEnvironment cfiles penv environment m)))"
  using assms
  by (auto simp: loadEnvironment_def loadConfigFile_def existsSync_def getConfig_def
      getCurrentEnvironment_def Let_def split: sum.splits option.splits json_file.splits)

text \<open>
  After \<^verbatim>\<open>dev\<close> is loaded, loading \<^verbatim>\<open>staging\<close>, which has no file, throws; the
  configuration of \<^verbatim>\<open>dev\<close> stays cached and the current environment is \<^verbatim>\<open>staging\<close>.
\<close>

theorem load_environment_not_atomic_witness:
  "resolve_env Map.empty (Some ''staging'') = ''staging''
   \<and> ex_configs (config_path ''staging'') = None
   \<and> fst (loadEnvironment ex_configs Map.empty (Some ''dev'') ex_manager)
       = Inr (mergeConfigs ex_base ex_dev)
   \<and> fst (loadEnvironment ex_configs Map.empty (Some ''staging'')
            (snd (loadEnvironment ex_configs Map.empty (Some ''dev'') ex_manager)))
       = Inl (Error ''Environment configuration not found for: staging'')
   \<and> config (snd (loadEnvironment ex_configs Map.empty (Some ''staging'')
            (snd (loadEnvironment ex_configs Map.empty (Some ''dev'') ex_manager))))
       = Some (mergeConfigs ex_base ex_dev)
   \<and> getCurrentEnvironment (snd (loadEnvironment ex_configs Map.empty (Some ''staging'')
            (snd (loadEnvironment ex_configs Map.empty (Some ''dev'') ex_manager))))
       = ''staging''"
proof -
  let ?dev = "loadEnvironment ex_configs Map.empty (Some ''dev'') ex_manager"
  have e: "resolve_env Map.empty (Some ''staging'') = ''staging''"
    by (simp add: resolve_env_def or_else_def)
  have f: "ex_configs (config_path ''staging'') = None"
    by (simp add: ex_configs_def config_path_def)
  have d: "?dev = (Inr (mergeConfigs ex_base ex_dev),
                   \<lparr>config = Some (mergeConfigs ex_base ex_dev), currentEnvironment = ''dev''\<rparr>)"
    by code_simp
  have c: "config (snd ?dev) = Some (mergeConfigs ex_base ex_dev)" by (simp add: d)
  show ?thesis
    using load_environment_not_atomic
      [where env = "''staging''" and penv = Map.empty and environment = "Some ''staging''"
         and cfiles = ex_configs and m = "snd ?dev"] e f c d
    by simp
qed

text \<open>
  The third way to throw: both files load, and the merged configuration has no
  \<^verbatim>\<open>environment\<close>. The configuration is then already replaced.
\<close>

lemma load_environment_throws_after_assignment:
  "loadEnvironment [config_path ''base'' \<mapsto> Json ex_base, config_path ''qa'' \<mapsto> Json (JObj [])]
     Map.empty (Some ''qa'') ex_manager
   = (Inl (Error ''Environment configuration not found for: qa''),
      \<lparr>config = Some (mergeConfigs ex_base (JObj [])), currentEnvironment = ''qa''\<rparr>)"
  by code_simp

section \<open>Properties of the retry summary\<close>

subsection \<open>Rounding to a double\<close>

text \<open>
  \<open>exponent\<close> is the binary exponent, and it is the only integer between the two
  bounds; \<open>fl\<close> has a relative error of at most \<open>2 ^ - 53\<close>.
\<close>

lemma exponent_bounds:
  assumes "x \<noteq> 0"
  shows "2 powi exponent x \<le> \<bar>x\<bar>" and "\<bar>x\<bar> < 2 powi (exponent x + 1)"
proof -
  obtain p q where pq: "quotient_of \<bar>x\<bar> = (p, q)" by (cases "quotient_of \<bar>x\<bar>")
  have q: "0 < q" using pq by (rule quotient_of_denom_pos)
  have a: "\<bar>x\<bar> = of_int p / of_int q" using pq by (rule quotient_of_div)
  have "0 < \<bar>x\<bar>" using assms by simp
  then have p: "0 < p" using a q by (simp add: zero_less_divide_iff)
  let ?bp = "bitlen p" and ?bq = "bitlen q"
  have bp1: "1 \<le> ?bp" and bq1: "1 \<le> ?bq"
    using p q bitlen_eq_zero_iff [of p] bitlen_eq_zero_iff [of q] bitlen_nonneg [of p] bitlen_nonneg [of q]
    by linarith+
  note Bp = bitlen_bounds [OF p] and Bq = bitlen_bounds [OF q]
  have P1: "(2::rat) powi (?bp - 1) = 2 ^ nat (?bp - 1)" and P2: "(2::rat) powi ?bp = 2 ^ nat ?bp"
    and Q1: "(2::rat) powi (?bq - 1) = 2 ^ nat (?bq - 1)" and Q2: "(2::rat) powi ?bq = 2 ^ nat ?bq"
    using bp1 bq1 by (simp_all add: power_int_def)
  have rp: "(2::rat) ^ nat (?bp - 1) \<le> of_int p" "of_int p < (2::rat) ^ nat ?bp"
    using Bp by (metis of_int_le_iff of_int_numeral of_int_power, metis of_int_less_iff of_int_numeral of_int_power)
  have rq: "(2::rat) ^ nat (?bq - 1) \<le> of_int q" "of_int q < (2::rat) ^ nat ?bq"
    using Bq by (metis of_int_le_iff of_int_numeral of_int_power, metis of_int_less_iff of_int_numeral of_int_power)
  have qpos: "(0::rat) < of_int q" and ppos: "(0::rat) < of_int p" using p q by simp_all
  have "(2::rat) powi (?bp - ?bq - 1) = 2 powi (?bp - 1) / 2 powi ?bq"
    using power_int_diff [of "2::rat" "?bp - 1" ?bq] by (simp add: algebra_simps)
  also have "\<dots> = 2 ^ nat (?bp - 1) / 2 ^ nat ?bq" by (simp only: P1 Q2)
  also have "\<dots> \<le> of_int p / of_int q"
    using rp(1) rq(2) qpos ppos by (intro frac_le) simp_all
  finally have lo: "(2::rat) powi (?bp - ?bq - 1) \<le> \<bar>x\<bar>" by (simp add: a)
  have "of_int p / of_int q < (2::rat) ^ nat ?bp / 2 ^ nat (?bq - 1)"
    using rp(2) rq(1) qpos ppos by (intro frac_less) simp_all
  also have "\<dots> = 2 powi ?bp / 2 powi (?bq - 1)" by (simp only: P2 Q1)
  also have "\<dots> = 2 powi (?bp - ?bq + 1)"
    using power_int_diff [of "2::rat" ?bp "?bq - 1"] by (simp add: algebra_simps)
  finally have hi: "\<bar>x\<bar> < (2::rat) powi (?bp - ?bq + 1)" by (simp add: a)
  show "2 powi exponent x \<le> \<bar>x\<bar>"
    using lo by (simp add: exponent_def pq Let_def)
  show "\<bar>x\<bar> < 2 powi (exponent x + 1)"
    using hi by (auto simp add: exponent_def pq Let_def not_le)
qed


lemma exponent_unique:
  assumes "2 powi e \<le> \<bar>x\<bar>" and "\<bar>x\<bar> < 2 powi (e + 1)"
  shows "exponent x = e"
proof -
  have pos: "(0::rat) < 2 powi e" by simp
  have "x \<noteq> 0"
  proof
    assume "x = 0"
    with assms(1) have "(2::rat) powi e \<le> 0" by simp
    with pos show False by linarith
  qed
  note b = exponent_bounds [OF this]
  have "(2::rat) powi e < 2 powi (exponent x + 1)" using assms(1) b(2) by simp
  then have 1: "e < exponent x + 1"
    using power_int_increasing [of "exponent x + 1" e "2::rat"] by (cases "e < exponent x + 1") auto
  have "(2::rat) powi exponent x < 2 powi (e + 1)" using assms(2) b(1) by simp
  then have 2: "exponent x < e + 1"
    using power_int_increasing [of "e + 1" "exponent x" "2::rat"] by (cases "exponent x < e + 1") auto
  from 1 2 show ?thesis by simp
qed

lemma round_half_even_error: "\<bar>of_int (round_half_even y) - y\<bar> \<le> 1 / 2"
proof -
  have "of_int \<lfloor>y\<rfloor> \<le> y" "y < of_int \<lfloor>y\<rfloor> + 1" by linarith+
  then show ?thesis by (auto simp: round_half_even_def Let_def)
qed

lemma round_half_even_unique:
  assumes "\<bar>y - of_int m\<bar> < 1 / 2"
  shows "round_half_even y = m"
proof -
  have "\<bar>of_int (round_half_even y) - y\<bar> \<le> 1 / 2" by (rule round_half_even_error)
  with assms have "\<bar>(of_int (round_half_even y) :: rat) - of_int m\<bar> < 1" by linarith
  then have "\<bar>round_half_even y - m\<bar> < 1"
    by (metis of_int_diff of_int_abs of_int_less_1_iff)
  then show ?thesis by simp
qed

lemma round_half_even_nonneg: "0 \<le> y \<Longrightarrow> 0 \<le> round_half_even y"
  by (auto simp: round_half_even_def Let_def)

lemma fl_nonneg: "0 \<le> x \<Longrightarrow> 0 \<le> fl x"
  by (simp add: fl_def Let_def round_half_even_nonneg)

lemma fl_error: "\<bar>fl x - x\<bar> \<le> \<bar>x\<bar> / 2 ^ 53"
proof (cases "x = 0")
  case True
  then show ?thesis by (simp add: fl_def)
next
  case False
  let ?u = "(2::rat) powi (exponent x - 52)"
  have u: "0 < ?u" by simp
  have "fl x - x = (of_int (round_half_even (x / ?u)) - x / ?u) * ?u"
    using False u by (simp add: fl_def Let_def field_simps)
  then have "\<bar>fl x - x\<bar> = \<bar>of_int (round_half_even (x / ?u)) - x / ?u\<bar> * ?u"
    using u by (simp add: abs_mult)
  also have "\<dots> \<le> 1 / 2 * ?u"
    using round_half_even_error [of "x / ?u"] u by (intro mult_right_mono) simp_all
  also have "\<dots> = 2 powi exponent x / 2 ^ 53"
    using power_int_diff [of "2::rat" "exponent x" 52] by simp
  also have "\<dots> \<le> \<bar>x\<bar> / 2 ^ 53"
    using exponent_bounds(1) [OF False] by (simp add: divide_right_mono)
  finally show ?thesis .
qed

lemma fl_eqI:
  assumes "2 powi e \<le> \<bar>x\<bar>" and "\<bar>x\<bar> < 2 powi (e + 1)"
    and "\<bar>x / 2 powi (e - 52) - of_int m\<bar> < 1 / 2"
  shows "fl x = of_int m * 2 powi (e - 52)"
proof -
  have pos: "(0::rat) < 2 powi e" by simp
  have "x \<noteq> 0"
  proof
    assume "x = 0"
    with assms(1) have "(2::rat) powi e \<le> 0" by simp
    with pos show False by linarith
  qed
  moreover have "exponent x = e" using assms(1,2) by (rule exponent_unique)
  ultimately show ?thesis
    using round_half_even_unique [OF assms(3)] by (simp add: fl_def Let_def)
qed

subsection \<open>The success rate\<close>

lemma hundredths_near: "0 \<le> x \<Longrightarrow> \<bar>of_nat (hundredths x) - x * 100\<bar> \<le> (1 / 2 :: rat)"
proof -
  assume x: "0 \<le> x"
  let ?f = "\<lfloor>x * 100 + 1 / 2\<rfloor>"
  have "0 \<le> ?f" using x by simp
  then have "(of_nat (hundredths x) :: rat) = of_int ?f"
    using x by (simp add: hundredths_def)
  moreover have "of_int ?f \<le> x * 100 + 1 / 2" "x * 100 + 1 / 2 < of_int ?f + 1" by linarith+
  ultimately show ?thesis by linarith
qed

lemma success_rate_nearest:
  assumes a: "0 < a" and b: "b \<le> a" and small: "a < 2 ^ 32"
  shows "\<bar>of_nat (hundredths (fl (fl ((of_nat a - of_nat b) / of_nat a) * 100))) / 100
            - (of_nat a - of_nat b) / of_nat a * 100\<bar> \<le> (1 / 200 :: rat)"
proof -
  let ?q = "(of_nat a - of_nat b) / of_nat a :: rat"
  let ?x1 = "fl ?q"
  let ?x2 = "fl (?x1 * 100)"
  let ?n = "hundredths ?x2"
  have ra: "(0::rat) < of_nat a" using a by simp
  have q0: "0 \<le> ?q" using a b by simp
  have q1: "?q \<le> 1" using a b by simp
  have e1: "\<bar>?x1 - ?q\<bar> \<le> 1 / 2 ^ 53"
  proof -
    have "\<bar>?x1 - ?q\<bar> \<le> \<bar>?q\<bar> / 2 ^ 53" by (rule fl_error)
    also have "\<dots> \<le> 1 / 2 ^ 53" using q0 q1 by (intro divide_right_mono) simp_all
    finally show ?thesis .
  qed
  have x1_0: "0 \<le> ?x1" using q0 by (rule fl_nonneg)
  have e1': "\<bar>?x1 - ?q\<bar> \<le> 1 / 9007199254740992" using e1 by simp
  have x1_2: "?x1 \<le> 2" using e1' q1 by linarith
  have e2: "\<bar>?x2 - ?x1 * 100\<bar> \<le> 200 / 2 ^ 53"
  proof -
    have "\<bar>?x2 - ?x1 * 100\<bar> \<le> \<bar>?x1 * 100\<bar> / 2 ^ 53" by (rule fl_error)
    also have "\<dots> \<le> 200 / 2 ^ 53" using x1_0 x1_2 by (intro divide_right_mono) simp_all
    finally show ?thesis .
  qed
  have x2_0: "0 \<le> ?x2" using x1_0 by (intro fl_nonneg) simp
  have e3: "\<bar>of_nat ?n - ?x2 * 100\<bar> \<le> (1 / 2 :: rat)" using x2_0 by (rule hundredths_near)
  define K :: int where "K = 10000 * (int a - int b)"
  define z :: int where "z = 2 * int ?n * int a - 2 * K"
  have t: "?q * 100 * 100 = of_int K / of_nat a"
    by (simp add: K_def)
  have e2': "\<bar>?x2 - ?x1 * 100\<bar> \<le> 200 / 9007199254740992" using e2 by simp
  have "\<bar>of_nat ?n - ?q * 100 * 100\<bar> \<le> (1 / 2 + 30000 / 9007199254740992 :: rat)"
    using e1' e2' e3 by linarith
  then have n_t: "\<bar>of_nat ?n - of_int K / of_nat a\<bar> \<le> (1 / 2 + 30000 / 2 ^ 53 :: rat)"
    unfolding t by simp
  have "(of_int z :: rat) = 2 * of_nat a * (of_nat ?n - of_int K / of_nat a)"
    using ra by (simp add: z_def field_simps)
  then have "\<bar>of_int z :: rat\<bar> = 2 * of_nat a * \<bar>of_nat ?n - of_int K / of_nat a\<bar>"
    using ra by (simp add: abs_mult)
  also have "\<dots> \<le> 2 * of_nat a * (1 / 2 + 30000 / 2 ^ 53)"
    using n_t ra by (intro mult_left_mono) simp_all
  also have "\<dots> = of_nat a + of_nat a * (60000 / 2 ^ 53)" by (simp add: algebra_simps)
  also have "\<dots> < of_nat a + 1"
  proof -
    have "(of_nat a :: rat) < 2 ^ 32" using small
      by (metis of_nat_less_iff of_nat_numeral of_nat_power)
    then have "(of_nat a :: rat) * (60000 / 2 ^ 53) < 2 ^ 32 * (60000 / 2 ^ 53)"
      by (intro mult_strict_right_mono) simp_all
    also have "\<dots> < 1" by simp
    finally show ?thesis by simp
  qed
  finally have "\<bar>of_int z :: rat\<bar> < of_int (int a + 1)" by simp
  then have "\<bar>z\<bar> < int a + 1" by (metis of_int_abs of_int_less_iff)
  then have "\<bar>z\<bar> \<le> int a" by simp
  then have zr: "\<bar>of_int z :: rat\<bar> \<le> of_nat a"
    by (metis of_int_abs of_int_le_iff of_int_of_nat_eq)
  have "\<bar>of_nat ?n / 100 - ?q * 100\<bar> = \<bar>of_int z :: rat\<bar> / (200 * of_nat a)"
  proof -
    have "of_nat ?n / 100 - ?q * 100 = (of_int z :: rat) / (200 * of_nat a)"
      using ra by (simp add: z_def K_def field_simps)
    then show ?thesis using ra by (simp add: abs_divide)
  qed
  also have "\<dots> \<le> of_nat a / (200 * of_nat a)"
    using zr ra by (intro divide_right_mono) simp_all
  also have "\<dots> = 1 / 200" using ra by simp
  finally show ?thesis .
qed

text \<open>
  Two quotients that lie halfway between two-decimal numbers. \<open>97 / 160 * 100\<close> is
  \<open>60.625\<close>; the doubles give a product just below it, rendered \<^verbatim>\<open>60.62\<close>.
  \<open>29 / 32 * 100\<close> is \<open>90.625\<close>, computed exactly and rendered \<^verbatim>\<open>90.63\<close>.
\<close>

lemma digits_of_numeral:
  "digits_of (numeral k) n =
     (if n < 10 then [digit_char n] else digits_of (pred_numeral k) (n div 10) @ [digit_char (n mod 10)])"
  by (simp add: numeral_eq_Suc)

lemma fixed2_examples:
  "fixed2 6062 = ''60.62''" "fixed2 9063 = ''90.63''" "fixed2 5000 = ''50.00''"
  by (simp_all add: fixed2_def show_nat_def digits_of_numeral digit_char_def)

lemma success_rate_160_63: "success_rate 160 63 = ''60.62''"
proof -
  have 1: "fl (97 / 160) = 5460614548186726 / 2 ^ 53"
    using fl_eqI [of "- 1" "97 / 160" 5460614548186726]
    by (simp add: power_int_minus inverse_eq_divide)
  have 2: "fl (5460614548186726 / 2 ^ 53 * 100) = 8532210231541759 / 2 ^ 47"
    using fl_eqI [of 5 "5460614548186726 / 2 ^ 53 * 100" 8532210231541759]
    by (simp add: power_int_minus inverse_eq_divide)
  have 3: "hundredths (8532210231541759 / 2 ^ 47) = 6062"
  proof -
    have "\<lfloor>\<bar>8532210231541759 / 2 ^ 47 :: rat\<bar> * 100 + 1 / 2\<rfloor> = 6062"
      by (rule floor_unique) simp_all
    then show ?thesis by (simp add: hundredths_def)
  qed
  have 4: "\<not> (8532210231541759 / 2 ^ 47 :: rat) < 0" by simp
  have "success_rate 160 63 = toFixed2 (fl (fl (97 / 160) * 100))"
    by (simp add: success_rate_def)
  also have "\<dots> = toFixed2 (8532210231541759 / 2 ^ 47)" by (simp only: 1 2)
  also have "\<dots> = fixed2 6062" by (simp only: toFixed2_def 3 4 if_False append_Nil)
  finally show ?thesis by (simp only: fixed2_examples)
qed

lemma success_rate_32_3: "success_rate 32 3 = ''90.63''"
proof -
  have 1: "fl (29 / 32) = 8162774324609024 / 2 ^ 53"
    using fl_eqI [of "- 1" "29 / 32" 8162774324609024]
    by (simp add: power_int_minus inverse_eq_divide)
  have 2: "fl (8162774324609024 / 2 ^ 53 * 100) = 6377167441100800 / 2 ^ 46"
    using fl_eqI [of 6 "8162774324609024 / 2 ^ 53 * 100" 6377167441100800]
    by (simp add: power_int_minus inverse_eq_divide)
  have 3: "hundredths (6377167441100800 / 2 ^ 46) = 9063"
  proof -
    have "\<lfloor>\<bar>6377167441100800 / 2 ^ 46 :: rat\<bar> * 100 + 1 / 2\<rfloor> = 9063"
      by (rule floor_unique) simp_all
    then show ?thesis by (simp add: hundredths_def)
  qed
  have 4: "\<not> (6377167441100800 / 2 ^ 46 :: rat) < 0" by simp
  have "success_rate 32 3 = toFixed2 (fl (fl (29 / 32) * 100))"
    by (simp add: success_rate_def)
  also have "\<dots> = toFixed2 (6377167441100800 / 2 ^ 46)" by (simp only: 1 2)
  also have "\<dots> = fixed2 9063" by (simp only: toFixed2_def 3 4 if_False append_Nil)
  finally show ?thesis by (simp only: fixed2_examples)
qed

text \<open>
  Claim C3. For a retry session with \<open>N > 0\<close> original failures and \<open>M \<le> N\<close> still
  failing (\<open>N\<close> an array length, below \<open>2 ^ 32\<close>), the summary that is written has
  \<open>recovered = N - M\<close>; its \<open>successRate\<close> is the two-decimal numeral of a number of
  hundredths \<open>n\<close>, the double \<open>(N - M) / N * 100\<close> rounded half up to hundredths, and
  \<open>n / 100\<close> is at most \<open>0.005\<close> away from the exact \<open>(N - M) / N * 100\<close>, that is, it
  is the quotient rounded to two decimals; and the names of its recovered tests are
  the original failing names that are not among the still-failing names.
\<close>

theorem retry_summary:
  assumes "0 < length originalFailed"
    and "length retryResults \<le> length originalFailed"
    and "length originalFailed < 2 ^ 32"
  shows "\<exists>report n.
           retry_report_file (generateRetryReport files now originalFailed retryResults)
             = Some (Json report)
         \<and> originalFailures report = int (length originalFailed)
         \<and> stillFailing report = int (length retryResults)
         \<and> recovered report = int (length originalFailed) - int (length retryResults)
         \<and> successRate report = fixed2 n
         \<and> n = hundredths (fl (fl ((of_nat (length originalFailed) - of_nat (length retryResults))
                                      / of_nat (length originalFailed)) * 100))
         \<and> \<bar>of_nat n / 100
              - (of_nat (length originalFailed) - of_nat (length retryResults))
                  / of_nat (length originalFailed) * 100\<bar> \<le> (1 / 200 :: rat)
         \<and> set (map scenarioName (details_recovered (details report)))
             = set (map scenarioName originalFailed) - set (map scenarioName retryResults)"
proof -
  let ?N = "length originalFailed" and ?M = "length retryResults"
  let ?x = "fl (fl ((of_nat ?N - of_nat ?M) / of_nat ?N) * 100)"
  have q0: "(0::rat) \<le> (of_nat ?N - of_nat ?M) / of_nat ?N" using assms(1,2) by simp
  have "0 \<le> ?x" by (intro fl_nonneg mult_nonneg_nonneg q0) simp
  then have rate: "success_rate ?N ?M = fixed2 (hundredths ?x)"
    using assms(1) by (simp add: success_rate_def toFixed2_def not_less)
  have names: "set (map scenarioName
        (filter (\<lambda>original. \<not> list_ex (\<lambda>retry. scenarioName retry = scenarioName original) retryResults)
           originalFailed))
      = set (map scenarioName originalFailed) - set (map scenarioName retryResults)"
    (is "?L = ?R")
  proof
    show "?L \<subseteq> ?R" by (auto simp: list_ex_iff)
    show "?R \<subseteq> ?L"
    proof
      fix nm assume "nm \<in> ?R"
      then obtain t where t: "t \<in> set originalFailed" "nm = scenarioName t"
          "nm \<notin> scenarioName ` set retryResults" by auto
      then have "\<not> list_ex (\<lambda>retry. scenarioName retry = scenarioName t) retryResults"
        unfolding list_ex_iff by (metis imageI)
      with t(1,2) show "nm \<in> ?L" by auto
    qed
  qed
  have "\<exists>report.
          retry_report_file (generateRetryReport files now originalFailed retryResults)
            = Some (Json report)
        \<and> originalFailures report = int ?N
        \<and> stillFailing report = int ?M
        \<and> recovered report = int ?N - int ?M
        \<and> successRate report = success_rate ?N ?M
        \<and> details_recovered (details report)
            = filter (\<lambda>original.
                \<not> list_ex (\<lambda>retry. scenarioName retry = scenarioName original) retryResults)
                originalFailed"
    by (simp add: generateRetryReport_def Let_def)
  then obtain report where
    r: "retry_report_file (generateRetryReport files now originalFailed retryResults)
          = Some (Json report)"
    and f: "originalFailures report = int ?N" "stillFailing report = int ?M"
      "recovered report = int ?N - int ?M"
    and s: "successRate report = success_rate ?N ?M"
    and d: "details_recovered (details report)
            = filter (\<lambda>original.
                \<not> list_ex (\<lambda>retry. scenarioName retry = scenarioName original) retryResults)
                originalFailed"
    by blast
  have s': "successRate report = fixed2 (hundredths ?x)" using s rate by simp
  have n': "set (map scenarioName (details_recovered (details report)))
             = set (map scenarioName originalFailed) - set (map scenarioName retryResults)"
    using names d by simp
  from r f s' n' success_rate_nearest [OF assms] show ?thesis by blast
qed

text \<open>
  Two original failures, one of them still failing: one recovered, and a success rate
  of \<^verbatim>\<open>50.00\<close>.
\<close>

theorem retry_summary_witness:
  "\<exists>report.
     retry_report_file
       (generateRetryReport ex_files ''2024-05-01T06:05:00.000Z'' [ex_test_A, ex_test_B] [ex_test_B])
       = Some (Json report)
     \<and> recovered report = 1
     \<and> successRate report = ''50.00''
     \<and> set (map scenarioName (details_recovered (details report))) = {''Search for user A''}"
proof -
  let ?o = "[ex_test_A, ex_test_B]" and ?r = "[ex_test_B]"
  have h: "0 < length ?o" "length ?r \<le> length ?o" "length ?o < 2 ^ 32" by simp_all
  from retry_summary [OF h, of ex_files "''2024-05-01T06:05:00.000Z''"]
  obtain report n where
    r: "retry_report_file
          (generateRetryReport ex_files ''2024-05-01T06:05:00.000Z'' ?o ?r) = Some (Json report)"
    and rec: "recovered report = int (length ?o) - int (length ?r)"
    and rate: "successRate report = fixed2 n"
    and near: "\<bar>of_nat n / 100 - (of_nat (length ?o) - of_nat (length ?r)) / of_nat (length ?o) * 100\<bar>
                 \<le> (1 / 200 :: rat)"
    and names: "set (map scenarioName (details_recovered (details report)))
                 = set (map scenarioName ?o) - set (map scenarioName ?r)"
    by blast
  from near have "\<bar>(of_nat n :: rat) / 100 - 50\<bar> \<le> 1 / 200" by simp
  then have "\<bar>(of_nat n :: rat) - 5000\<bar> \<le> 1 / 2" by linarith
  then have "\<bar>(of_int (int n - 5000) :: rat)\<bar> < 1" by simp
  then have "\<bar>int n - 5000\<bar> < 1" by (metis of_int_abs of_int_less_1_iff)
  then have n: "n = 5000" by simp
  have "successRate report = ''50.00''" using rate n fixed2_examples(3) by simp
  moreover have "recovered report = 1" using rec by simp
  moreover have "set (map scenarioName (details_recovered (details report))) = {''Search for user A''}"
    using names by (auto simp: ex_test_A_def ex_test_B_def)
  ultimately show ?thesis using r by blast
qed

end
